theory Spec2Isabelle
  imports Main "HOL-Library.Word" "HOL-Library.DAList" "HOL-Library.Signed_Division"
begin

unbundle bit_operations_syntax

section \<open>Go values\<close>

text \<open>
  The program (\<^verbatim>\<open>main.go\<close>) copies values, it never computes with them. Machine integers
  are words. A \<^verbatim>\<open>float64\<close> is its IEEE-754 bit pattern, a 64-bit word: a copy keeps every
  bit, and the only question the program (through \<^verbatim>\<open>encoding/json\<close>) ever asks of a float is
  whether it is finite. A Go pointer that may be \<^verbatim>\<open>nil\<close> is an \<open>option\<close>, and so is a
  slice that may be \<^verbatim>\<open>nil\<close> (\<^verbatim>\<open>encoding/json\<close> writes a nil slice as \<^verbatim>\<open>null\<close> and an
  empty one as \<^verbatim>\<open>[]\<close>).
\<close>

type_synonym int32 = "32 word"
type_synonym int64 = "64 word"
type_synonym float64 = "64 word"

text \<open>
  A Go \<^verbatim>\<open>map[string]string\<close> is read by the program only through \<^verbatim>\<open>range\<close>, which visits
  every entry once, in an order the runtime chooses. A label map is therefore given together
  with the order in which its one \<^verbatim>\<open>range\<close> loop visits it: an association list with
  distinct keys. Every theorem below holds for every such order.
\<close>

type_synonym labels_map = "(string, string) alist"

section \<open>The protocol-buffer messages read by the program\<close>

text \<open>
  Only the fields that \<^verbatim>\<open>main.go\<close> reads are kept. The generated getters are nil-safe: on a
  nil receiver they return the zero value. The value of a \<^verbatim>\<open>oneof\<close> is the wrapper of one
  alternative or nil; a wrapper itself is never a nil pointer (the library builds none), the
  message inside a wrapper may be.
\<close>

record pb_Timestamp =
  Timestamp_Seconds :: int64
  Timestamp_Nanos :: int32

record pb_TimeInterval =
  TimeInterval_EndTime :: "pb_Timestamp option"
  TimeInterval_StartTime :: "pb_Timestamp option"

record pb_Range =
  pb_Range_Min :: float64
  pb_Range_Max :: float64

record pb_Linear =
  pb_Linear_NumFiniteBuckets :: int32
  pb_Linear_Width :: float64
  pb_Linear_Offset :: float64

record pb_Exponential =
  pb_Exponential_NumFiniteBuckets :: int32
  pb_Exponential_GrowthFactor :: float64
  pb_Exponential_Scale :: float64

record pb_Explicit =
  pb_Explicit_Bounds :: "float64 list option"

datatype pb_Options =
    Distribution_BucketOptions_LinearBuckets "pb_Linear option"
  | Distribution_BucketOptions_ExponentialBuckets "pb_Exponential option"
  | Distribution_BucketOptions_ExplicitBuckets "pb_Explicit option"

record pb_BucketOptions =
  pb_BucketOptions_Options :: "pb_Options option"

record pb_Distribution =
  pb_Count :: int64
  pb_Mean :: float64
  pb_SumOfSquaredDeviation :: float64
  pb_Range :: "pb_Range option"
  pb_BucketOptions :: "pb_BucketOptions option"
  pb_BucketCounts :: "int64 list option"

datatype TypedValue_Value =
    TypedValue_BoolValue bool
  | TypedValue_Int64Value int64
  | TypedValue_DoubleValue float64
  | TypedValue_StringValue string
  | TypedValue_DistributionValue "pb_Distribution option"

record pb_TypedValue =
  TypedValue_Value :: "TypedValue_Value option"

record pb_Point =
  pb_Point_Interval :: "pb_TimeInterval option"
  pb_Point_Value :: "pb_TypedValue option"

record pb_MonitoredResource =
  MonitoredResource_Labels :: labels_map

record pb_Metric =
  Metric_Labels :: labels_map

record pb_TimeSeries =
  TimeSeries_Metric :: "pb_Metric option"
  TimeSeries_Resource :: "pb_MonitoredResource option"
  TimeSeries_Points :: "pb_Point option list"

definition GetSeconds :: "pb_Timestamp option \<Rightarrow> int64" where
  "GetSeconds x = (case x of None \<Rightarrow> 0 | Some t \<Rightarrow> Timestamp_Seconds t)"

definition GetNanos :: "pb_Timestamp option \<Rightarrow> int32" where
  "GetNanos x = (case x of None \<Rightarrow> 0 | Some t \<Rightarrow> Timestamp_Nanos t)"

definition GetInterval :: "pb_Point option \<Rightarrow> pb_TimeInterval option" where
  "GetInterval p = (case p of None \<Rightarrow> None | Some x \<Rightarrow> pb_Point_Interval x)"

definition Point_GetValue :: "pb_Point option \<Rightarrow> pb_TypedValue option" where
  "Point_GetValue p = (case p of None \<Rightarrow> None | Some x \<Rightarrow> pb_Point_Value x)"

definition TypedValue_GetValue :: "pb_TypedValue option \<Rightarrow> TypedValue_Value option" where
  "TypedValue_GetValue v = (case v of None \<Rightarrow> None | Some x \<Rightarrow> TypedValue_Value x)"

definition GetResource :: "pb_TimeSeries \<Rightarrow> pb_MonitoredResource option" where
  "GetResource resp = TimeSeries_Resource resp"

definition GetMetric :: "pb_TimeSeries \<Rightarrow> pb_Metric option" where
  "GetMetric resp = TimeSeries_Metric resp"

definition GetPoints :: "pb_TimeSeries \<Rightarrow> pb_Point option list" where
  "GetPoints resp = TimeSeries_Points resp"

definition MonitoredResource_GetLabels :: "pb_MonitoredResource option \<Rightarrow> labels_map" where
  "MonitoredResource_GetLabels r =
     (case r of None \<Rightarrow> DAList.empty | Some x \<Rightarrow> MonitoredResource_Labels x)"

definition Metric_GetLabels :: "pb_Metric option \<Rightarrow> labels_map" where
  "Metric_GetLabels m = (case m of None \<Rightarrow> DAList.empty | Some x \<Rightarrow> Metric_Labels x)"

definition GetCount :: "pb_Distribution option \<Rightarrow> int64" where
  "GetCount dv = (case dv of None \<Rightarrow> 0 | Some d \<Rightarrow> pb_Count d)"

definition GetMean :: "pb_Distribution option \<Rightarrow> float64" where
  "GetMean dv = (case dv of None \<Rightarrow> 0 | Some d \<Rightarrow> pb_Mean d)"

definition GetSumOfSquaredDeviation :: "pb_Distribution option \<Rightarrow> float64" where
  "GetSumOfSquaredDeviation dv = (case dv of None \<Rightarrow> 0 | Some d \<Rightarrow> pb_SumOfSquaredDeviation d)"

definition GetRange :: "pb_Distribution option \<Rightarrow> pb_Range option" where
  "GetRange dv = (case dv of None \<Rightarrow> None | Some d \<Rightarrow> pb_Range d)"

definition GetBucketOptions :: "pb_Distribution option \<Rightarrow> pb_BucketOptions option" where
  "GetBucketOptions dv = (case dv of None \<Rightarrow> None | Some d \<Rightarrow> pb_BucketOptions d)"

definition GetBucketCounts :: "pb_Distribution option \<Rightarrow> int64 list option" where
  "GetBucketCounts dv = (case dv of None \<Rightarrow> None | Some d \<Rightarrow> pb_BucketCounts d)"

definition GetMin :: "pb_Range option \<Rightarrow> float64" where
  "GetMin r = (case r of None \<Rightarrow> 0 | Some x \<Rightarrow> pb_Range_Min x)"

definition GetMax :: "pb_Range option \<Rightarrow> float64" where
  "GetMax r = (case r of None \<Rightarrow> 0 | Some x \<Rightarrow> pb_Range_Max x)"

definition GetOptions :: "pb_BucketOptions option \<Rightarrow> pb_Options option" where
  "GetOptions bo = (case bo of None \<Rightarrow> None | Some x \<Rightarrow> pb_BucketOptions_Options x)"

definition Linear_GetNumFiniteBuckets :: "pb_Linear option \<Rightarrow> int32" where
  "Linear_GetNumFiniteBuckets l = (case l of None \<Rightarrow> 0 | Some x \<Rightarrow> pb_Linear_NumFiniteBuckets x)"

definition GetWidth :: "pb_Linear option \<Rightarrow> float64" where
  "GetWidth l = (case l of None \<Rightarrow> 0 | Some x \<Rightarrow> pb_Linear_Width x)"

definition GetOffset :: "pb_Linear option \<Rightarrow> float64" where
  "GetOffset l = (case l of None \<Rightarrow> 0 | Some x \<Rightarrow> pb_Linear_Offset x)"

definition Exponential_GetNumFiniteBuckets :: "pb_Exponential option \<Rightarrow> int32" where
  "Exponential_GetNumFiniteBuckets e =
     (case e of None \<Rightarrow> 0 | Some x \<Rightarrow> pb_Exponential_NumFiniteBuckets x)"

definition GetGrowthFactor :: "pb_Exponential option \<Rightarrow> float64" where
  "GetGrowthFactor e = (case e of None \<Rightarrow> 0 | Some x \<Rightarrow> pb_Exponential_GrowthFactor x)"

definition GetScale :: "pb_Exponential option \<Rightarrow> float64" where
  "GetScale e = (case e of None \<Rightarrow> 0 | Some x \<Rightarrow> pb_Exponential_Scale x)"

definition GetBounds :: "pb_Explicit option \<Rightarrow> float64 list option" where
  "GetBounds e = (case e of None \<Rightarrow> None | Some x \<Rightarrow> pb_Explicit_Bounds x)"

section \<open>Instants\<close>

text \<open>
  A \<^verbatim>\<open>time.Time\<close> is kept as what its methods \<^verbatim>\<open>Unix()\<close> and \<^verbatim>\<open>Nanosecond()\<close> return:
  seconds since the Unix epoch (an \<^verbatim>\<open>int64\<close>) and nanoseconds within that second.
  \<open>time_Unix\<close> is the library's \<^verbatim>\<open>time.Unix(sec, nsec)\<close>, which folds an \<^verbatim>\<open>nsec\<close> outside
  \<open>[0, 999999999]\<close> into the seconds (Go's \<^verbatim>\<open>/\<close> truncates towards zero);
  \<open>AsTime\<close> is the method \<^verbatim>\<open>AsTime\<close> of a timestamp, nil-safe through the getters.
\<close>

record Time =
  Time_sec :: int64
  Time_nsec :: int64

definition time_Unix :: "int64 \<Rightarrow> int64 \<Rightarrow> Time" where
  "time_Unix sec nsec =
     (if nsec <s 0 \<or> 1000000000 \<le>s nsec then
        (let n = (word_of_int (sint nsec sdiv 1000000000) :: int64);
             sec1 = sec + n;
             nsec1 = nsec - n * 1000000000
         in if nsec1 <s 0 then \<lparr>Time_sec = sec1 - 1, Time_nsec = nsec1 + 1000000000\<rparr>
            else \<lparr>Time_sec = sec1, Time_nsec = nsec1\<rparr>)
      else \<lparr>Time_sec = sec, Time_nsec = nsec\<rparr>)"

definition Unix :: "Time \<Rightarrow> int64" where
  "Unix t = Time_sec t"

definition AsTime :: "pb_Timestamp option \<Rightarrow> Time" where
  "AsTime x = time_Unix (GetSeconds x) (signed (GetNanos x))"

section \<open>The program's own types (main.go, lines 18 to 72)\<close>

record KeyValue =
  KeyValue_Type :: string
  KeyValue_Key :: string
  KeyValue_Value :: string

record Range =
  Range_Min :: float64
  Range_Max :: float64

record LinearBuckets =
  LinearBuckets_NumFiniteBuckets :: int32
  LinearBuckets_Width :: float64
  LinearBuckets_Offset :: float64

record ExponentialBuckets =
  ExponentialBuckets_NumFiniteBuckets :: int32
  ExponentialBuckets_GrowthFactor :: float64
  ExponentialBuckets_Scale :: float64

record ExplicitBuckets =
  ExplicitBuckets_Bounds :: "float64 list option"

record OptionsUnion =
  OptionsUnion_LinearBuckets :: "LinearBuckets option"
  OptionsUnion_ExponentialBuckets :: "ExponentialBuckets option"
  OptionsUnion_ExplicitBuckets :: "ExplicitBuckets option"

record BucketOptions =
  BucketOptions_Options :: "OptionsUnion option"

record DistributionValue =
  DistributionValue_Count :: int64
  DistributionValue_Mean :: float64
  DistributionValue_SumOfSquaredDeviation :: float64
  DistributionValue_Range :: "Range option"
  DistributionValue_BucketOptions :: "BucketOptions option"
  DistributionValue_BucketCounts :: "int64 list option"

record Point =
  Point_Timestamp :: Time
  Point_Labels :: "KeyValue list"
  Point_BoolValue :: "bool option"
  Point_Int64Value :: "int64 option"
  Point_DoubleValue :: "float64 option"
  Point_StringValue :: "string option"
  Point_DistributionValue :: "DistributionValue option"

section \<open>Failures\<close>

text \<open>
  Every way in which \<^verbatim>\<open>readAndPrintTimeSeriesFields\<close> stops early. The first three are the
  errors it builds itself with \<^verbatim>\<open>fmt.Errorf\<close>; each carries the value that the format verb
  prints. The next two are the errors \<^verbatim>\<open>json.Marshal\<close> returns on these types. The last
  is the run-time panic of \<^verbatim>\<open>p.GetInterval().StartTime\<close> on a point without interval.
\<close>

datatype failure =
    NewMetricClient_failed string
  | could_not_read_time_series_value string
  | Not_supported_metric_type "TypedValue_Value option"
  | json_UnsupportedValueError float64
  | Time_MarshalJSON_year_outside_of_range Time
  | nil_pointer_dereference

section \<open>convertKeyValuePairs (main.go, lines 74 to 80)\<close>

definition convertKeyValuePairs :: "labels_map \<Rightarrow> string \<Rightarrow> KeyValue list" where
  "convertKeyValuePairs labels type_tag =
     foldl (\<lambda>kvs (k, v). kvs @ [\<lparr>KeyValue_Type = type_tag, KeyValue_Key = k, KeyValue_Value = v\<rparr>])
       [] (DAList.impl_of labels)"

section \<open>The body of readAndPrintTimeSeriesFields (main.go, lines 82 to 190)\<close>

subsection \<open>Lines 120 to 122: the label list of one series\<close>

definition labels_of :: "pb_TimeSeries \<Rightarrow> KeyValue list" where
  "labels_of resp =
     (let labels = [];
          labels = labels @ convertKeyValuePairs (MonitoredResource_GetLabels (GetResource resp)) ''resource'';
          labels = labels @ convertKeyValuePairs (Metric_GetLabels (GetMetric resp)) ''metric''
      in labels)"

subsection \<open>Lines 153 to 171: the bucket layout\<close>

definition OptionsUnion_of :: "pb_BucketOptions option \<Rightarrow> OptionsUnion" where
  "OptionsUnion_of bo =
     (let ou = \<lparr>OptionsUnion_LinearBuckets = None, OptionsUnion_ExponentialBuckets = None,
                OptionsUnion_ExplicitBuckets = None\<rparr>
      in case GetOptions bo of
           Some (Distribution_BucketOptions_LinearBuckets l) \<Rightarrow>
             ou\<lparr>OptionsUnion_LinearBuckets := Some
               \<lparr>LinearBuckets_NumFiniteBuckets = Linear_GetNumFiniteBuckets l,
                LinearBuckets_Width = GetWidth l,
                LinearBuckets_Offset = GetOffset l\<rparr>\<rparr>
         | Some (Distribution_BucketOptions_ExponentialBuckets e) \<Rightarrow>
             ou\<lparr>OptionsUnion_ExponentialBuckets := Some
               \<lparr>ExponentialBuckets_NumFiniteBuckets = Exponential_GetNumFiniteBuckets e,
                ExponentialBuckets_GrowthFactor = GetGrowthFactor e,
                ExponentialBuckets_Scale = GetScale e\<rparr>\<rparr>
         | Some (Distribution_BucketOptions_ExplicitBuckets x) \<Rightarrow>
             ou\<lparr>OptionsUnion_ExplicitBuckets := Some \<lparr>ExplicitBuckets_Bounds = GetBounds x\<rparr>\<rparr>
         | None \<Rightarrow> ou)"

subsection \<open>Lines 140 to 176: the distribution value\<close>

definition DistributionValue_of :: "pb_Distribution option \<Rightarrow> DistributionValue" where
  "DistributionValue_of dv =
     (let d = \<lparr>DistributionValue_Count = GetCount dv,
               DistributionValue_Mean = GetMean dv,
               DistributionValue_SumOfSquaredDeviation = GetSumOfSquaredDeviation dv,
               DistributionValue_Range = None,
               DistributionValue_BucketOptions = None,
               DistributionValue_BucketCounts = None\<rparr>;
          d = (case GetRange dv of
                 Some r \<Rightarrow> d\<lparr>DistributionValue_Range := Some
                   \<lparr>Range_Min = GetMin (Some r), Range_Max = GetMax (Some r)\<rparr>\<rparr>
               | None \<Rightarrow> d);
          d = (case GetBucketOptions dv of
                 Some bo \<Rightarrow> d\<lparr>DistributionValue_BucketOptions := Some
                   \<lparr>BucketOptions_Options = Some (OptionsUnion_of (Some bo))\<rparr>\<rparr>
               | None \<Rightarrow> d)
      in d\<lparr>DistributionValue_BucketCounts := GetBucketCounts dv\<rparr>)"

subsection \<open>Lines 126 to 179: one point\<close>

text \<open>
  \<^verbatim>\<open>p.GetInterval()\<close> is nil-safe, the field access \<^verbatim>\<open>.StartTime\<close> on its result is not:
  a point without interval panics before the \<^verbatim>\<open>switch\<close> is reached. The \<^verbatim>\<open>switch\<close> is
  over the dynamic type of the \<^verbatim>\<open>oneof\<close> value; the interface is sealed, so the
  \<^verbatim>\<open>default\<close> branch is the branch of a value that is not set.
\<close>

definition point_of :: "KeyValue list \<Rightarrow> pb_Point option \<Rightarrow> failure + Point" where
  "point_of labels p =
     (case GetInterval p of
        None \<Rightarrow> Inl nil_pointer_dereference
      | Some interval \<Rightarrow>
          (let point = \<lparr>Point_Timestamp = AsTime (TimeInterval_StartTime interval),
                        Point_Labels = labels,
                        Point_BoolValue = None, Point_Int64Value = None,
                        Point_DoubleValue = None, Point_StringValue = None,
                        Point_DistributionValue = None\<rparr>
           in case TypedValue_GetValue (Point_GetValue p) of
                Some (TypedValue_BoolValue b) \<Rightarrow> Inr (point\<lparr>Point_BoolValue := Some b\<rparr>)
              | Some (TypedValue_Int64Value i) \<Rightarrow> Inr (point\<lparr>Point_Int64Value := Some i\<rparr>)
              | Some (TypedValue_DoubleValue d) \<Rightarrow> Inr (point\<lparr>Point_DoubleValue := Some d\<rparr>)
              | Some (TypedValue_StringValue s) \<Rightarrow> Inr (point\<lparr>Point_StringValue := Some s\<rparr>)
              | Some (TypedValue_DistributionValue dv) \<Rightarrow>
                  Inr (point\<lparr>Point_DistributionValue := Some (DistributionValue_of dv)\<rparr>)
              | None \<Rightarrow> Inl (Not_supported_metric_type None)))"

subsection \<open>Lines 124 to 181: the points of one series\<close>

fun points_loop :: "KeyValue list \<Rightarrow> pb_Point option list \<Rightarrow> Point list \<Rightarrow> failure + Point list" where
  "points_loop labels [] points = Inr points"
| "points_loop labels (p # ps) points =
     (case point_of labels p of
        Inl err \<Rightarrow> Inl err
      | Inr point \<Rightarrow> points_loop labels ps (points @ [point]))"

section \<open>json.Marshal on the program's types\<close>

text \<open>
  \<^verbatim>\<open>encoding/json\<close> is driven by the struct tags of lines 18 to 72: every field has a name
  and none has \<^verbatim>\<open>omitempty\<close>, so every field is written, a nil pointer and a nil slice as
  \<^verbatim>\<open>null\<close>. The document is kept as a tree; the spelling of numbers, strings and instants
  is the library's. The encoder fails on a float that is NaN or an infinity (exponent bits
  all ones) and on an instant whose year is outside 0 to 9999; it stops at the first such
  value in field order.
\<close>

datatype json =
    JNull
  | JBool bool
  | JInt int64
  | JFloat float64
  | JString string
  | JTime Time
  | JArray "json list"
  | JObject "(string \<times> json) list"

fun sequence_fields :: "(string \<times> (failure + json)) list \<Rightarrow> failure + (string \<times> json) list" where
  "sequence_fields [] = Inr []"
| "sequence_fields ((name, r) # fs) =
     (case r of
        Inl err \<Rightarrow> Inl err
      | Inr j \<Rightarrow> (case sequence_fields fs of Inl err \<Rightarrow> Inl err | Inr js \<Rightarrow> Inr ((name, j) # js)))"

fun sequence_elems :: "(failure + json) list \<Rightarrow> failure + json list" where
  "sequence_elems [] = Inr []"
| "sequence_elems (r # rs) =
     (case r of
        Inl err \<Rightarrow> Inl err
      | Inr j \<Rightarrow> (case sequence_elems rs of Inl err \<Rightarrow> Inl err | Inr js \<Rightarrow> Inr (j # js)))"

definition Marshal_struct :: "(string \<times> (failure + json)) list \<Rightarrow> failure + json" where
  "Marshal_struct fs = (case sequence_fields fs of Inl err \<Rightarrow> Inl err | Inr js \<Rightarrow> Inr (JObject js))"

definition Marshal_slice :: "('a \<Rightarrow> failure + json) \<Rightarrow> 'a list \<Rightarrow> failure + json" where
  "Marshal_slice f xs =
     (case sequence_elems (map f xs) of Inl err \<Rightarrow> Inl err | Inr js \<Rightarrow> Inr (JArray js))"

definition Marshal_nilable :: "('a \<Rightarrow> failure + json) \<Rightarrow> 'a option \<Rightarrow> failure + json" where
  "Marshal_nilable f x = (case x of None \<Rightarrow> Inr JNull | Some v \<Rightarrow> f v)"

definition IsNaN_or_IsInf :: "float64 \<Rightarrow> bool" where
  "IsNaN_or_IsInf f = (drop_bit 52 f AND 0x7FF = 0x7FF)"

definition Marshal_float64 :: "float64 \<Rightarrow> failure + json" where
  "Marshal_float64 f = (if IsNaN_or_IsInf f then Inl (json_UnsupportedValueError f) else Inr (JFloat f))"

definition Marshal_Time :: "Time \<Rightarrow> failure + json" where
  "Marshal_Time t =
     (if Time_sec t <s - 62167219200 \<or> 253402300800 \<le>s Time_sec t
      then Inl (Time_MarshalJSON_year_outside_of_range t) else Inr (JTime t))"

definition Marshal_KeyValue :: "KeyValue \<Rightarrow> failure + json" where
  "Marshal_KeyValue kv = Marshal_struct
     [(''type'', Inr (JString (KeyValue_Type kv))),
      (''key'', Inr (JString (KeyValue_Key kv))),
      (''value'', Inr (JString (KeyValue_Value kv)))]"

definition Marshal_Range :: "Range \<Rightarrow> failure + json" where
  "Marshal_Range r = Marshal_struct
     [(''min'', Marshal_float64 (Range_Min r)),
      (''max'', Marshal_float64 (Range_Max r))]"

definition Marshal_LinearBuckets :: "LinearBuckets \<Rightarrow> failure + json" where
  "Marshal_LinearBuckets l = Marshal_struct
     [(''num_finite_buckets'', Inr (JInt (signed (LinearBuckets_NumFiniteBuckets l)))),
      (''width'', Marshal_float64 (LinearBuckets_Width l)),
      (''offset'', Marshal_float64 (LinearBuckets_Offset l))]"

definition Marshal_ExponentialBuckets :: "ExponentialBuckets \<Rightarrow> failure + json" where
  "Marshal_ExponentialBuckets e = Marshal_struct
     [(''num_finite_buckets'', Inr (JInt (signed (ExponentialBuckets_NumFiniteBuckets e)))),
      (''growth_factor'', Marshal_float64 (ExponentialBuckets_GrowthFactor e)),
      (''scale'', Marshal_float64 (ExponentialBuckets_Scale e))]"

definition Marshal_ExplicitBuckets :: "ExplicitBuckets \<Rightarrow> failure + json" where
  "Marshal_ExplicitBuckets x = Marshal_struct
     [(''bounds'', Marshal_nilable (Marshal_slice Marshal_float64) (ExplicitBuckets_Bounds x))]"

definition Marshal_OptionsUnion :: "OptionsUnion \<Rightarrow> failure + json" where
  "Marshal_OptionsUnion ou = Marshal_struct
     [(''linear_buckets'', Marshal_nilable Marshal_LinearBuckets (OptionsUnion_LinearBuckets ou)),
      (''exponential_buckets'',
         Marshal_nilable Marshal_ExponentialBuckets (OptionsUnion_ExponentialBuckets ou)),
      (''explicit_buckets'', Marshal_nilable Marshal_ExplicitBuckets (OptionsUnion_ExplicitBuckets ou))]"

definition Marshal_BucketOptions :: "BucketOptions \<Rightarrow> failure + json" where
  "Marshal_BucketOptions bo = Marshal_struct
     [(''options'', Marshal_nilable Marshal_OptionsUnion (BucketOptions_Options bo))]"

definition Marshal_DistributionValue :: "DistributionValue \<Rightarrow> failure + json" where
  "Marshal_DistributionValue d = Marshal_struct
     [(''count'', Inr (JInt (DistributionValue_Count d))),
      (''mean'', Marshal_float64 (DistributionValue_Mean d)),
      (''sum_of_squared_deviation'', Marshal_float64 (DistributionValue_SumOfSquaredDeviation d)),
      (''range'', Marshal_nilable Marshal_Range (DistributionValue_Range d)),
      (''bucket_options'', Marshal_nilable Marshal_BucketOptions (DistributionValue_BucketOptions d)),
      (''bucket_counts'',
         Marshal_nilable (Marshal_slice (\<lambda>c. Inr (JInt c))) (DistributionValue_BucketCounts d))]"

definition Marshal_Point :: "Point \<Rightarrow> failure + json" where
  "Marshal_Point point = Marshal_struct
     [(''timestamp'', Marshal_Time (Point_Timestamp point)),
      (''labels'', Marshal_slice Marshal_KeyValue (Point_Labels point)),
      (''bool_value'', Marshal_nilable (\<lambda>b. Inr (JBool b)) (Point_BoolValue point)),
      (''int64_value'', Marshal_nilable (\<lambda>i. Inr (JInt i)) (Point_Int64Value point)),
      (''double_value'', Marshal_nilable Marshal_float64 (Point_DoubleValue point)),
      (''string_value'', Marshal_nilable (\<lambda>s. Inr (JString s)) (Point_StringValue point)),
      (''distribution_value'',
         Marshal_nilable Marshal_DistributionValue (Point_DistributionValue point))]"

definition json_Marshal :: "Point list \<Rightarrow> failure + json" where
  "json_Marshal points = Marshal_slice Marshal_Point points"

section \<open>The request (main.go, lines 96 to 108)\<close>

datatype ListTimeSeriesRequest_TimeSeriesView =
    ListTimeSeriesRequest_FULL
  | ListTimeSeriesRequest_HEADERS

record ListTimeSeriesRequest =
  Request_Name :: string
  Request_Filter :: string
  Request_Interval :: "pb_TimeInterval option"
  Request_View :: ListTimeSeriesRequest_TimeSeriesView

text \<open>
  \<^verbatim>\<open>fmt.Sprintf\<close> with the verb \<^verbatim>\<open>%s\<close> on a string argument inserts the string as it is.
  \<open>CHR 0x22\<close> is the double quote. A timestamp literal that names only \<^verbatim>\<open>Seconds\<close> has
  \<^verbatim>\<open>Nanos\<close> zero.
\<close>

definition req :: "string \<Rightarrow> string \<Rightarrow> string \<Rightarrow> Time \<Rightarrow> Time \<Rightarrow> ListTimeSeriesRequest" where
  "req projectID metricType resourceType startTime endTime =
     \<lparr>Request_Name = ''projects/'' @ projectID,
      Request_Filter =
        ''metric.type='' @ [CHR 0x22] @ metricType @ [CHR 0x22] @
        '' resource.type='' @ [CHR 0x22] @ resourceType @ [CHR 0x22],
      Request_Interval = Some
        \<lparr>TimeInterval_EndTime = Some \<lparr>Timestamp_Seconds = Unix endTime, Timestamp_Nanos = 0\<rparr>,
         TimeInterval_StartTime = Some \<lparr>Timestamp_Seconds = Unix startTime, Timestamp_Nanos = 0\<rparr>\<rparr>,
      Request_View = ListTimeSeriesRequest_FULL\<rparr>"

section \<open>The monitoring backend\<close>

text \<open>
  The client library is the program's environment. \<open>NewMetricClient\<close> is the error of
  \<^verbatim>\<open>monitoring.NewMetricClient\<close>, if any. \<open>ListTimeSeries\<close> gives, for a request, what the
  successive calls of \<^verbatim>\<open>it.Next()\<close> return: a series or an error; at the end of the list
  \<^verbatim>\<open>it.Next()\<close> returns \<^verbatim>\<open>iterator.Done\<close>.
\<close>

datatype Next = Next_resp pb_TimeSeries | Next_err string

record Backend =
  NewMetricClient :: "string option"
  ListTimeSeries :: "ListTimeSeriesRequest \<Rightarrow> Next list"

section \<open>readAndPrintTimeSeriesFields (main.go, lines 82 to 190)\<close>

text \<open>
  Standard output is the list of the writes made so far. The program writes only with the
  \<^verbatim>\<open>fmt.Println\<close> of line 187: \<open>Println j\<close> is the encoding of the document \<open>j\<close>
  (compact, on one line) followed by a newline. The function returns its error (or panic),
  if any, and standard output.
\<close>

datatype printed = Println json

type_synonym stdout = "printed list"

fun series_loop :: "Next list \<Rightarrow> stdout \<Rightarrow> failure option \<times> stdout" where
  "series_loop [] out = (None, out)"
| "series_loop (Next_err err # it) out = (Some (could_not_read_time_series_value err), out)"
| "series_loop (Next_resp resp # it) out =
     (let labels = labels_of resp
      in case points_loop labels (GetPoints resp) [] of
           Inl err \<Rightarrow> (Some err, out)
         | Inr points \<Rightarrow>
             (case json_Marshal points of
                Inl err \<Rightarrow> (Some err, out)
              | Inr outputJson \<Rightarrow> series_loop it (out @ [Println outputJson])))"

definition readAndPrintTimeSeriesFields ::
  "Backend \<Rightarrow> string \<Rightarrow> string \<Rightarrow> string \<Rightarrow> Time \<Rightarrow> Time \<Rightarrow> stdout \<Rightarrow> failure option \<times> stdout" where
  "readAndPrintTimeSeriesFields backend projectID metricType resourceType startTime endTime out =
     (case NewMetricClient backend of
        Some err \<Rightarrow> (Some (NewMetricClient_failed err), out)
      | None \<Rightarrow>
          series_loop
            (ListTimeSeries backend (req projectID metricType resourceType startTime endTime)) out)"

section \<open>main (main.go, lines 192 to 206)\<close>

text \<open>
  \<open>Add\<close> is \<^verbatim>\<open>Time.Add\<close> for a duration in nanoseconds. The library keeps the seconds of
  an instant as an \<^verbatim>\<open>int64\<close> count from the year 1, which is the Unix second plus
  \<open>unixToInternal\<close> (wrapping); \<open>addSec\<close> is its \<^verbatim>\<open>addSec\<close> on that count, which
  saturates instead of overflowing. (For a reading that also carries the monotonic clock
  the library first tries the seconds since 1885 that it holds in 33 bits, and falls back
  to this count when they leave that range; nothing overflows on that path, so the result
  is the same.)
  The two defaults of lines 197 and 198 each read the clock with their own call of
  \<^verbatim>\<open>time.Now()\<close>: \<open>now1\<close> and \<open>now2\<close> are these two readings.
\<close>

definition Minute :: int64 where
  "Minute = 60000000000"

definition unixToInternal :: int64 where
  "unixToInternal = 62135596800"

definition addSec :: "int64 \<Rightarrow> int64 \<Rightarrow> int64" where
  "addSec ext d =
     (let sum = ext + d
      in if (ext <s sum) = (0 <s d) then sum
         else if 0 <s d then 9223372036854775807
         else - 9223372036854775807)"

definition Add :: "Time \<Rightarrow> int64 \<Rightarrow> Time" where
  "Add t d =
     (let dsec = (word_of_int (sint d sdiv 1000000000) :: int64);
          nsec = Time_nsec t + word_of_int (sint d smod 1000000000);
          (dsec, nsec) =
            (if 1000000000 \<le>s nsec then (dsec + 1, nsec - 1000000000)
             else if nsec <s 0 then (dsec - 1, nsec + 1000000000)
             else (dsec, nsec))
      in \<lparr>Time_sec = addSec (Time_sec t + unixToInternal) dsec - unixToInternal,
          Time_nsec = nsec\<rparr>)"

record Flags =
  flag_project :: string
  flag_metricType :: string
  flag_resourceType :: string
  flag_start :: int64
  flag_end :: int64

definition flag_defaults :: "Time \<Rightarrow> Time \<Rightarrow> Flags" where
  "flag_defaults now1 now2 =
     \<lparr>flag_project = [],
      flag_metricType = [],
      flag_resourceType = [],
      flag_start = Unix (Add now1 ((- 10) * Minute)),
      flag_end = Unix now2\<rparr>"

text \<open>
  The command line, as \<^verbatim>\<open>flag.Parse\<close> reads it when it is well formed: for each flag, the
  value given for it, if any. (On a malformed command line \<^verbatim>\<open>flag.Parse\<close> ends the process
  itself.)
\<close>

record CommandLine =
  given_project :: "string option"
  given_metricType :: "string option"
  given_resourceType :: "string option"
  given_start :: "int64 option"
  given_end :: "int64 option"

definition no_flags :: CommandLine where
  "no_flags = \<lparr>given_project = None, given_metricType = None, given_resourceType = None,
               given_start = None, given_end = None\<rparr>"

definition flag_Parse :: "CommandLine \<Rightarrow> Flags \<Rightarrow> Flags" where
  "flag_Parse args defaults =
     \<lparr>flag_project = (case given_project args of None \<Rightarrow> flag_project defaults | Some v \<Rightarrow> v),
      flag_metricType = (case given_metricType args of None \<Rightarrow> flag_metricType defaults | Some v \<Rightarrow> v),
      flag_resourceType =
        (case given_resourceType args of None \<Rightarrow> flag_resourceType defaults | Some v \<Rightarrow> v),
      flag_start = (case given_start args of None \<Rightarrow> flag_start defaults | Some v \<Rightarrow> v),
      flag_end = (case given_end args of None \<Rightarrow> flag_end defaults | Some v \<Rightarrow> v)\<rparr>"

text \<open>
  The process ends with status 0 when \<^verbatim>\<open>main\<close> returns, with status 1 after
  \<^verbatim>\<open>log.Fatal\<close>, and with status 2 after a panic.
\<close>

record Process =
  Process_status :: nat
  Process_stdout :: stdout
  Process_failure :: "failure option"

definition main :: "CommandLine \<Rightarrow> Time \<Rightarrow> Time \<Rightarrow> Backend \<Rightarrow> Process" where
  "main args now1 now2 backend =
     (let flags = flag_Parse args (flag_defaults now1 now2);
          (err, out) = readAndPrintTimeSeriesFields backend
             (flag_project flags) (flag_metricType flags) (flag_resourceType flags)
             (time_Unix (flag_start flags) 0) (time_Unix (flag_end flags) 0) []
      in \<lparr>Process_status =
            (case err of None \<Rightarrow> 0 | Some nil_pointer_dereference \<Rightarrow> 2 | Some _ \<Rightarrow> 1),
          Process_stdout = out,
          Process_failure = err\<rparr>)"

section \<open>Populated value fields\<close>

text \<open>The names of the value fields of a \<open>Point\<close> that are not nil, in declaration order.\<close>

definition populated_value_fields :: "Point \<Rightarrow> string list" where
  "populated_value_fields point =
     (if Point_BoolValue point \<noteq> None then [''BoolValue''] else []) @
     (if Point_Int64Value point \<noteq> None then [''Int64Value''] else []) @
     (if Point_DoubleValue point \<noteq> None then [''DoubleValue''] else []) @
     (if Point_StringValue point \<noteq> None then [''StringValue''] else []) @
     (if Point_DistributionValue point \<noteq> None then [''DistributionValue''] else [])"

section \<open>Example inputs\<close>

text \<open>
  The series of the end-to-end scenario: resource label \<^verbatim>\<open>zone\<close>, metric label
  \<^verbatim>\<open>instance\<close>, a point with the integer 42 and a point with a distribution (count 3,
  mean 1.5, explicit bounds 0.0 and 1.0, bucket counts 1, 2, 0). The floats are bit
  patterns: \<open>0x3FF8000000000000\<close> is 1.5 and \<open>0x3FF0000000000000\<close> is 1.0.
\<close>

definition example_interval :: "int64 \<Rightarrow> pb_TimeInterval" where
  "example_interval s =
     \<lparr>TimeInterval_EndTime = Some \<lparr>Timestamp_Seconds = s, Timestamp_Nanos = 0\<rparr>,
      TimeInterval_StartTime = Some \<lparr>Timestamp_Seconds = s, Timestamp_Nanos = 0\<rparr>\<rparr>"

definition example_distribution :: pb_Distribution where
  "example_distribution =
     \<lparr>pb_Count = 3, pb_Mean = 0x3FF8000000000000, pb_SumOfSquaredDeviation = 0,
      pb_Range = None,
      pb_BucketOptions = Some \<lparr>pb_BucketOptions_Options = Some
        (Distribution_BucketOptions_ExplicitBuckets
           (Some \<lparr>pb_Explicit_Bounds = Some [0, 0x3FF0000000000000]\<rparr>))\<rparr>,
      pb_BucketCounts = Some [1, 2, 0]\<rparr>"

definition example_int64_point :: pb_Point where
  "example_int64_point =
     \<lparr>pb_Point_Interval = Some (example_interval 1700000000),
      pb_Point_Value = Some \<lparr>TypedValue_Value = Some (TypedValue_Int64Value 42)\<rparr>\<rparr>"

definition example_distribution_point :: pb_Point where
  "example_distribution_point =
     \<lparr>pb_Point_Interval = Some (example_interval 1700000060),
      pb_Point_Value = Some
        \<lparr>TypedValue_Value = Some (TypedValue_DistributionValue (Some example_distribution))\<rparr>\<rparr>"

definition example_unset_point :: pb_Point where
  "example_unset_point =
     \<lparr>pb_Point_Interval = Some (example_interval 1700000120),
      pb_Point_Value = Some \<lparr>TypedValue_Value = None\<rparr>\<rparr>"

definition example_series :: "pb_Point option list \<Rightarrow> pb_TimeSeries" where
  "example_series points =
     \<lparr>TimeSeries_Metric = Some \<lparr>Metric_Labels = DAList.update ''instance'' ''i-1'' DAList.empty\<rparr>,
      TimeSeries_Resource = Some
        \<lparr>MonitoredResource_Labels = DAList.update ''zone'' ''us-central1-a'' DAList.empty\<rparr>,
      TimeSeries_Points = points\<rparr>"

definition example_labels :: "KeyValue list" where
  "example_labels =
     [\<lparr>KeyValue_Type = ''resource'', KeyValue_Key = ''zone'', KeyValue_Value = ''us-central1-a''\<rparr>,
      \<lparr>KeyValue_Type = ''metric'', KeyValue_Key = ''instance'', KeyValue_Value = ''i-1''\<rparr>]"

definition example_backend :: "Next list \<Rightarrow> Backend" where
  "example_backend it = \<lparr>NewMetricClient = None, ListTimeSeries = (\<lambda>request. it)\<rparr>"

text \<open>
  Two clock readings 400 nanoseconds apart within one second, and two readings one
  nanosecond apart on the two sides of a second boundary.
\<close>

definition example_now1 :: Time where
  "example_now1 = \<lparr>Time_sec = 1700000000, Time_nsec = 250000000\<rparr>"

definition example_now2 :: Time where
  "example_now2 = \<lparr>Time_sec = 1700000000, Time_nsec = 250000400\<rparr>"

definition example_before_tick :: Time where
  "example_before_tick = \<lparr>Time_sec = 1700000000, Time_nsec = 999999999\<rparr>"

definition example_after_tick :: Time where
  "example_after_tick = \<lparr>Time_sec = 1700000001, Time_nsec = 0\<rparr>"

text \<open>What the two example points become, with the label list of the example series.\<close>

definition example_int64_output :: Point where
  "example_int64_output =
     \<lparr>Point_Timestamp = \<lparr>Time_sec = 1700000000, Time_nsec = 0\<rparr>,
      Point_Labels = example_labels,
      Point_BoolValue = None, Point_Int64Value = Some 42, Point_DoubleValue = None,
      Point_StringValue = None, Point_DistributionValue = None\<rparr>"

definition example_distribution_output :: Point where
  "example_distribution_output =
     \<lparr>Point_Timestamp = \<lparr>Time_sec = 1700000060, Time_nsec = 0\<rparr>,
      Point_Labels = example_labels,
      Point_BoolValue = None, Point_Int64Value = None, Point_DoubleValue = None,
      Point_StringValue = None,
      Point_DistributionValue = Some
        \<lparr>DistributionValue_Count = 3,
         DistributionValue_Mean = 0x3FF8000000000000,
         DistributionValue_SumOfSquaredDeviation = 0,
         DistributionValue_Range = None,
         DistributionValue_BucketOptions = Some \<lparr>BucketOptions_Options = Some
           \<lparr>OptionsUnion_LinearBuckets = None, OptionsUnion_ExponentialBuckets = None,
            OptionsUnion_ExplicitBuckets = Some
              \<lparr>ExplicitBuckets_Bounds = Some [0, 0x3FF0000000000000]\<rparr>\<rparr>\<rparr>,
         DistributionValue_BucketCounts = Some [1, 2, 0]\<rparr>\<rparr>"

text \<open>The documents that \<^verbatim>\<open>json.Marshal\<close> makes of these two points.\<close>

definition example_labels_json :: json where
  "example_labels_json = JArray
     [JObject [(''type'', JString ''resource''), (''key'', JString ''zone''),
               (''value'', JString ''us-central1-a'')],
      JObject [(''type'', JString ''metric''), (''key'', JString ''instance''),
               (''value'', JString ''i-1'')]]"

definition example_int64_json :: json where
  "example_int64_json = JObject
     [(''timestamp'', JTime \<lparr>Time_sec = 1700000000, Time_nsec = 0\<rparr>),
      (''labels'', example_labels_json),
      (''bool_value'', JNull),
      (''int64_value'', JInt 42),
      (''double_value'', JNull),
      (''string_value'', JNull),
      (''distribution_value'', JNull)]"

definition example_distribution_json :: json where
  "example_distribution_json = JObject
     [(''timestamp'', JTime \<lparr>Time_sec = 1700000060, Time_nsec = 0\<rparr>),
      (''labels'', example_labels_json),
      (''bool_value'', JNull),
      (''int64_value'', JNull),
      (''double_value'', JNull),
      (''string_value'', JNull),
      (''distribution_value'', JObject
         [(''count'', JInt 3),
          (''mean'', JFloat 0x3FF8000000000000),
          (''sum_of_squared_deviation'', JFloat 0),
          (''range'', JNull),
          (''bucket_options'', JObject
             [(''options'', JObject
                [(''linear_buckets'', JNull),
                 (''exponential_buckets'', JNull),
                 (''explicit_buckets'', JObject
                    [(''bounds'', JArray [JFloat 0, JFloat 0x3FF0000000000000])])])]),
          (''bucket_counts'', JArray [JInt 1, JInt 2, JInt 0])])]"

section \<open>One series of a run\<close>

text \<open>
  Lines 120 to 186 for one series, without the printing: the document that line 187 prints
  for the series, or the failure that ends the run.
\<close>

definition series_line :: "pb_TimeSeries \<Rightarrow> failure + json" where
  "series_line resp =
     (case points_loop (labels_of resp) (GetPoints resp) [] of
        Inl err \<Rightarrow> Inl err
      | Inr points \<Rightarrow> json_Marshal points)"

text \<open>The field of a JSON object with a given name, if the object has one.\<close>

definition field :: "json \<Rightarrow> string \<Rightarrow> json option" where
  "field j name = (case j of JObject fs \<Rightarrow> map_of fs name | _ \<Rightarrow> None)"

definition value_field_names :: "string list" where
  "value_field_names =
     [''bool_value'', ''int64_value'', ''double_value'', ''string_value'', ''distribution_value'']"


text \<open>
  The errors with which \<^verbatim>\<open>json.Marshal\<close> rejects a value of these types: a float that is
  NaN or an infinity, an instant whose year is outside 0 to 9999.
\<close>

definition json_Marshal_error :: "failure \<Rightarrow> bool" where
  "json_Marshal_error err =
     (case err of
        json_UnsupportedValueError f \<Rightarrow> IsNaN_or_IsInf f
      | Time_MarshalJSON_year_outside_of_range t \<Rightarrow>
          Time_sec t <s - 62167219200 \<or> 253402300800 \<le>s Time_sec t
      | _ \<Rightarrow> False)"

section \<open>Lemmas on the label list\<close>

lemma foldl_snoc_map: "foldl (\<lambda>acc x. acc @ [f x]) a xs = a @ map f xs"
  by (induction xs arbitrary: a) simp_all

lemma convertKeyValuePairs_map:
  "convertKeyValuePairs labels t =
     map (\<lambda>(k, v). \<lparr>KeyValue_Type = t, KeyValue_Key = k, KeyValue_Value = v\<rparr>) (DAList.impl_of labels)"
proof -
  have "(\<lambda>kvs (k, v). kvs @ [\<lparr>KeyValue_Type = t, KeyValue_Key = k, KeyValue_Value = v\<rparr>])
      = (\<lambda>kvs x. kvs @ [(\<lambda>(k, v). \<lparr>KeyValue_Type = t, KeyValue_Key = k, KeyValue_Value = v\<rparr>) x])"
    by (simp add: fun_eq_iff split: prod.splits)
  then show ?thesis
    unfolding convertKeyValuePairs_def by (simp add: foldl_snoc_map)
qed

lemma length_convertKeyValuePairs:
  "length (convertKeyValuePairs labels t) = card (dom (DAList.lookup labels))"
proof -
  have "card (dom (map_of (DAList.impl_of labels))) = length (DAList.impl_of labels)"
    by (metis DAList.impl_of_distinct dom_map_of_conv_image_fst distinct_card length_map list.set_map)
  then show ?thesis
    by (simp add: convertKeyValuePairs_map DAList.lookup.rep_eq)
qed

lemma set_convertKeyValuePairs:
  "set (convertKeyValuePairs labels t) =
     (\<lambda>(k, v). \<lparr>KeyValue_Type = t, KeyValue_Key = k, KeyValue_Value = v\<rparr>) ` Map.graph (DAList.lookup labels)"
proof -
  have "set (DAList.impl_of labels) = Map.graph (map_of (DAList.impl_of labels))"
    by (auto simp: Map.graph_def)
  then show ?thesis
    by (simp add: convertKeyValuePairs_map DAList.lookup.rep_eq)
qed

lemma distinct_convertKeyValuePairs: "distinct (convertKeyValuePairs labels t)"
proof -
  have "distinct (DAList.impl_of labels)"
    using DAList.impl_of_distinct [of labels] by (simp add: distinct_map)
  then show ?thesis
    by (auto simp: convertKeyValuePairs_map distinct_map inj_on_def)
qed

lemma Type_convertKeyValuePairs:
  "kv \<in> set (convertKeyValuePairs labels t) \<Longrightarrow> KeyValue_Type kv = t"
  by (auto simp: convertKeyValuePairs_map)

lemma lookup_convertKeyValuePairs:
  "kv \<in> set (convertKeyValuePairs labels t) \<Longrightarrow>
     DAList.lookup labels (KeyValue_Key kv) = Some (KeyValue_Value kv)"
  by (auto simp: set_convertKeyValuePairs Map.graph_def)

lemma labels_of_append:
  "labels_of resp =
     convertKeyValuePairs (MonitoredResource_GetLabels (GetResource resp)) ''resource'' @
     convertKeyValuePairs (Metric_GetLabels (GetMetric resp)) ''metric''"
  by (simp add: labels_of_def)

lemma distinct_labels_of: "distinct (labels_of resp)"
proof -
  have "''resource'' \<noteq> ''metric''" by simp
  then show ?thesis
    unfolding labels_of_append
    by (auto simp: distinct_convertKeyValuePairs dest!: Type_convertKeyValuePairs)
qed

lemma impl_of_update_empty: "DAList.impl_of (DAList.update k v DAList.empty) = [(k, v)]"
  by (simp add: DAList.update.rep_eq DAList.empty.rep_eq)

lemma labels_of_example_series: "labels_of (example_series points) = example_labels"
  by (simp add: labels_of_append example_series_def example_labels_def convertKeyValuePairs_map
      impl_of_update_empty MonitoredResource_GetLabels_def Metric_GetLabels_def
      GetResource_def GetMetric_def)

section \<open>Lemmas on the point loop\<close>

lemma point_of_Labels: "point_of labels p = Inr point \<Longrightarrow> Point_Labels point = labels"
  by (auto simp: point_of_def Let_def split: option.splits TypedValue_Value.splits)

lemma point_of_Timestamp:
  "point_of labels p = Inr point \<Longrightarrow>
     \<exists>interval. GetInterval p = Some interval \<and>
       Point_Timestamp point = AsTime (TimeInterval_StartTime interval)"
  by (auto simp: point_of_def Let_def split: option.splits TypedValue_Value.splits)


lemma points_loop_Inr:
  "points_loop labels ps acc = Inr qs \<Longrightarrow>
     \<exists>new. qs = acc @ new \<and> length new = length ps \<and>
           (\<forall>i<length ps. point_of labels (ps ! i) = Inr (new ! i))"
proof (induction ps arbitrary: acc)
  case Nil
  then show ?case by simp
next
  case (Cons p ps)
  from Cons.prems obtain q where q: "point_of labels p = Inr q"
    and rest: "points_loop labels ps (acc @ [q]) = Inr qs"
    by (auto split: sum.splits)
  from Cons.IH [OF rest] obtain new where new: "qs = (acc @ [q]) @ new" "length new = length ps"
    "\<forall>i<length ps. point_of labels (ps ! i) = Inr (new ! i)" by blast
  have "\<forall>i<length (p # ps). point_of labels ((p # ps) ! i) = Inr ((q # new) ! i)"
    using q new(3) by (auto simp: nth_Cons split: nat.splits)
  with new show ?case by (intro exI [of _ "q # new"]) simp
qed

lemma points_loop_Nil_Inr:
  assumes "points_loop labels ps [] = Inr qs"
  shows "length qs = length ps" and "\<And>i. i < length ps \<Longrightarrow> point_of labels (ps ! i) = Inr (qs ! i)"
  using points_loop_Inr [OF assms] by auto

lemma points_loop_Labels:
  assumes "points_loop labels ps [] = Inr qs" and "q \<in> set qs"
  shows "Point_Labels q = labels"
proof -
  from assms(2) obtain i where i: "i < length qs" "qs ! i = q"
    by (auto simp: in_set_conv_nth)
  with points_loop_Nil_Inr [OF assms(1)] have "point_of labels (ps ! i) = Inr q" by simp
  then show ?thesis by (rule point_of_Labels)
qed

lemmas pb_getters =
  GetSeconds_def GetNanos_def GetInterval_def Point_GetValue_def TypedValue_GetValue_def
  GetResource_def GetMetric_def GetPoints_def MonitoredResource_GetLabels_def Metric_GetLabels_def
  GetCount_def GetMean_def GetSumOfSquaredDeviation_def GetRange_def GetBucketOptions_def
  GetBucketCounts_def GetMin_def GetMax_def GetOptions_def Linear_GetNumFiniteBuckets_def
  GetWidth_def GetOffset_def Exponential_GetNumFiniteBuckets_def GetGrowthFactor_def
  GetScale_def GetBounds_def

section \<open>The example series, evaluated\<close>

lemma AsTime_example:
  "AsTime (Some \<lparr>Timestamp_Seconds = s, Timestamp_Nanos = 0\<rparr>) = \<lparr>Time_sec = s, Time_nsec = 0\<rparr>"
  by (simp add: AsTime_def time_Unix_def GetSeconds_def GetNanos_def)

lemma point_of_example_int64:
  "point_of example_labels (Some example_int64_point) = Inr example_int64_output"
  by (simp add: point_of_def example_int64_point_def example_int64_output_def example_interval_def
      AsTime_example GetInterval_def Point_GetValue_def TypedValue_GetValue_def)

lemma DistributionValue_of_example:
  "DistributionValue_of (Some example_distribution) =
     \<lparr>DistributionValue_Count = 3,
      DistributionValue_Mean = 0x3FF8000000000000,
      DistributionValue_SumOfSquaredDeviation = 0,
      DistributionValue_Range = None,
      DistributionValue_BucketOptions = Some \<lparr>BucketOptions_Options = Some
        \<lparr>OptionsUnion_LinearBuckets = None, OptionsUnion_ExponentialBuckets = None,
         OptionsUnion_ExplicitBuckets = Some
           \<lparr>ExplicitBuckets_Bounds = Some [0, 0x3FF0000000000000]\<rparr>\<rparr>\<rparr>,
      DistributionValue_BucketCounts = Some [1, 2, 0]\<rparr>"
  by (simp add: DistributionValue_of_def OptionsUnion_of_def example_distribution_def pb_getters)

lemma point_of_example_distribution:
  "point_of example_labels (Some example_distribution_point) = Inr example_distribution_output"
  by (simp add: point_of_def example_distribution_point_def example_distribution_output_def
      example_interval_def AsTime_example GetInterval_def Point_GetValue_def
      TypedValue_GetValue_def DistributionValue_of_example)

lemma point_of_example_unset:
  "point_of labels (Some example_unset_point) = Inl (Not_supported_metric_type None)"
  by (simp add: point_of_def example_unset_point_def example_interval_def
      GetInterval_def Point_GetValue_def TypedValue_GetValue_def)

lemma points_loop_example:
  "points_loop example_labels [Some example_int64_point, Some example_distribution_point] [] =
     Inr [example_int64_output, example_distribution_output]"
  by (simp add: point_of_example_int64 point_of_example_distribution)

lemma finite_examples:
  "\<not> IsNaN_or_IsInf 0x3FF8000000000000" "\<not> IsNaN_or_IsInf 0x3FF0000000000000" "\<not> IsNaN_or_IsInf 0"
  by (simp_all add: IsNaN_or_IsInf_def)

lemma Marshal_example_int64_output: "Marshal_Point example_int64_output = Inr example_int64_json"
  by (simp add: Marshal_Point_def Marshal_struct_def Marshal_slice_def Marshal_nilable_def
      Marshal_Time_def Marshal_KeyValue_def example_int64_output_def example_labels_def
      example_int64_json_def example_labels_json_def)

lemma Marshal_example_distribution_output:
  "Marshal_Point example_distribution_output = Inr example_distribution_json"
  by (simp add: Marshal_Point_def Marshal_struct_def Marshal_slice_def Marshal_nilable_def
      Marshal_Time_def Marshal_KeyValue_def Marshal_DistributionValue_def Marshal_float64_def
      Marshal_BucketOptions_def Marshal_OptionsUnion_def Marshal_ExplicitBuckets_def
      finite_examples example_distribution_output_def example_labels_def
      example_distribution_json_def example_labels_json_def)

lemma series_line_example:
  "series_line (example_series [Some example_int64_point, Some example_distribution_point]) =
     Inr (JArray [example_int64_json, example_distribution_json])"
proof -
  have "points_loop
      (labels_of (example_series [Some example_int64_point, Some example_distribution_point]))
      (GetPoints (example_series [Some example_int64_point, Some example_distribution_point])) [] =
      Inr [example_int64_output, example_distribution_output]"
    unfolding labels_of_example_series
    by (simp add: GetPoints_def example_series_def point_of_example_int64
        point_of_example_distribution)
  then show ?thesis
    by (simp add: series_line_def json_Marshal_def Marshal_slice_def Marshal_example_int64_output
        Marshal_example_distribution_output)
qed

lemma series_line_example_empty: "series_line (example_series []) = Inr (JArray [])"
  by (simp add: series_line_def GetPoints_def example_series_def json_Marshal_def Marshal_slice_def)

section \<open>The merged label list\<close>

text \<open>
  Claim C2. For every time series, with resource label map \<open>L_resource\<close> and metric label
  map \<open>L_metric\<close>: the merged label list has as many entries as the two maps together; it has
  no duplicates and its set is the union of the resource entries tagged \<^verbatim>\<open>resource\<close> and the
  metric entries tagged \<^verbatim>\<open>metric\<close>; every entry carries the tag of the map in which its key
  and value are found; and the list is computed once, before the point loop, so that every
  point of the series carries this same list.
\<close>

theorem merged_labels_tagged_union:
  "let L_resource = MonitoredResource_GetLabels (GetResource resp);
       L_metric = Metric_GetLabels (GetMetric resp);
       merged = labels_of resp
   in length merged = card (dom (DAList.lookup L_resource)) + card (dom (DAList.lookup L_metric)) \<and>
      distinct merged \<and>
      set merged =
        (\<lambda>(k, v). \<lparr>KeyValue_Type = ''resource'', KeyValue_Key = k, KeyValue_Value = v\<rparr>) `
          Map.graph (DAList.lookup L_resource) \<union>
        (\<lambda>(k, v). \<lparr>KeyValue_Type = ''metric'', KeyValue_Key = k, KeyValue_Value = v\<rparr>) `
          Map.graph (DAList.lookup L_metric) \<and>
      (\<forall>kv \<in> set merged.
         (KeyValue_Type kv = ''resource'' \<and>
            DAList.lookup L_resource (KeyValue_Key kv) = Some (KeyValue_Value kv)) \<or>
         (KeyValue_Type kv = ''metric'' \<and>
            DAList.lookup L_metric (KeyValue_Key kv) = Some (KeyValue_Value kv))) \<and>
      (\<forall>points. points_loop merged (GetPoints resp) [] = Inr points \<longrightarrow>
         (\<forall>point \<in> set points. Point_Labels point = merged))"
proof -
  have "\<forall>points. points_loop (labels_of resp) (GetPoints resp) [] = Inr points \<longrightarrow>
         (\<forall>point \<in> set points. Point_Labels point = labels_of resp)"
    by (blast intro: points_loop_Labels)
  moreover have "\<forall>kv \<in> set (labels_of resp).
         (KeyValue_Type kv = ''resource'' \<and>
            DAList.lookup (MonitoredResource_GetLabels (GetResource resp)) (KeyValue_Key kv)
              = Some (KeyValue_Value kv)) \<or>
         (KeyValue_Type kv = ''metric'' \<and>
            DAList.lookup (Metric_GetLabels (GetMetric resp)) (KeyValue_Key kv)
              = Some (KeyValue_Value kv))"
    unfolding labels_of_append
    by (auto dest: Type_convertKeyValuePairs lookup_convertKeyValuePairs)
  moreover have "length (labels_of resp) =
      card (dom (DAList.lookup (MonitoredResource_GetLabels (GetResource resp)))) +
      card (dom (DAList.lookup (Metric_GetLabels (GetMetric resp))))"
    by (simp add: labels_of_append length_convertKeyValuePairs)
  moreover have "set (labels_of resp) =
        (\<lambda>(k, v). \<lparr>KeyValue_Type = ''resource'', KeyValue_Key = k, KeyValue_Value = v\<rparr>) `
          Map.graph (DAList.lookup (MonitoredResource_GetLabels (GetResource resp))) \<union>
        (\<lambda>(k, v). \<lparr>KeyValue_Type = ''metric'', KeyValue_Key = k, KeyValue_Value = v\<rparr>) `
          Map.graph (DAList.lookup (Metric_GetLabels (GetMetric resp)))"
    by (simp add: labels_of_append set_convertKeyValuePairs)
  ultimately show ?thesis
    unfolding Let_def using distinct_labels_of [of resp] by blast
qed

theorem merged_labels_tagged_union_witness:
  "points_loop
     (labels_of (example_series [Some example_int64_point, Some example_distribution_point]))
     (GetPoints (example_series [Some example_int64_point, Some example_distribution_point])) [] =
     Inr [example_int64_output, example_distribution_output] \<and>
   Point_Labels example_int64_output = example_labels \<and>
   Point_Labels example_distribution_output = example_labels \<and>
   length (labels_of (example_series [Some example_int64_point, Some example_distribution_point]))
     = 1 + 1"
proof -
  let ?S = "example_series [Some example_int64_point, Some example_distribution_point]"
  have run: "points_loop (labels_of ?S) (GetPoints ?S) [] =
      Inr [example_int64_output, example_distribution_output]"
    unfolding labels_of_example_series
    by (simp add: GetPoints_def example_series_def point_of_example_int64
        point_of_example_distribution)
  have dom: "dom (DAList.lookup (DAList.update k v DAList.empty)) = {k}" for k v :: string
    by (simp add: DAList.lookup.rep_eq impl_of_update_empty)
  have card: "card (dom (DAList.lookup (MonitoredResource_GetLabels (GetResource ?S)))) = 1"
    "card (dom (DAList.lookup (Metric_GetLabels (GetMetric ?S)))) = 1"
    by (simp_all add: example_series_def pb_getters dom)
  from merged_labels_tagged_union [of ?S] run card show ?thesis
    unfolding Let_def labels_of_example_series by simp
qed

text \<open>
  Claim C10. In the merged label list of every series the resource entries come first:
  the entry at position \<open>i\<close> is tagged \<^verbatim>\<open>resource\<close> when \<open>i\<close> is below the number of
  resource labels and \<^verbatim>\<open>metric\<close> otherwise, so no metric entry precedes a resource entry.
\<close>

theorem resource_labels_precede_metric_labels:
  "let merged = labels_of resp;
       n = card (dom (DAList.lookup (MonitoredResource_GetLabels (GetResource resp))))
   in (\<forall>i < length merged.
         KeyValue_Type (merged ! i) = (if i < n then ''resource'' else ''metric'')) \<and>
      (\<forall>i j. i < j \<and> j < length merged \<and> KeyValue_Type (merged ! j) = ''resource'' \<longrightarrow>
         KeyValue_Type (merged ! i) = ''resource'')"
proof -
  define R where "R = convertKeyValuePairs (MonitoredResource_GetLabels (GetResource resp)) ''resource''"
  define M where "M = convertKeyValuePairs (Metric_GetLabels (GetMetric resp)) ''metric''"
  define n where "n = card (dom (DAList.lookup (MonitoredResource_GetLabels (GetResource resp))))"
  have merged: "labels_of resp = R @ M" and n: "length R = n"
    by (simp_all add: labels_of_append R_def M_def n_def length_convertKeyValuePairs)
  have R: "KeyValue_Type (R ! i) = ''resource''" if "i < length R" for i
    using Type_convertKeyValuePairs [OF nth_mem] that unfolding R_def by blast
  have M: "KeyValue_Type (M ! i) = ''metric''" if "i < length M" for i
    using Type_convertKeyValuePairs [OF nth_mem] that unfolding M_def by blast
  have pos: "KeyValue_Type ((R @ M) ! i) = (if i < n then ''resource'' else ''metric'')"
    if "i < length (R @ M)" for i
    using that n R [of i] M [of "i - n"] by (auto simp: nth_append)
  have "KeyValue_Type ((R @ M) ! i) = ''resource''"
    if "i < j" "j < length (R @ M)" "KeyValue_Type ((R @ M) ! j) = ''resource''" for i j
  proof -
    have "j < n" using pos [OF that(2)] that(3) by (auto split: if_splits)
    with that(1) have "i < n" by simp
    moreover from that have "i < length (R @ M)" by simp
    ultimately show ?thesis using pos [of i] by simp
  qed
  with pos show ?thesis
    unfolding Let_def merged n_def [symmetric] by blast
qed

theorem resource_labels_precede_metric_labels_witness:
  "KeyValue_Type (labels_of (example_series []) ! 0) = ''resource'' \<and>
   KeyValue_Type (labels_of (example_series []) ! 1) = ''metric''"
proof -
  have dom: "dom (DAList.lookup (DAList.update k v DAList.empty)) = {k}" for k v :: string
    by (simp add: DAList.lookup.rep_eq impl_of_update_empty)
  have card: "card (dom (DAList.lookup (MonitoredResource_GetLabels (GetResource (example_series []))))) = 1"
    by (simp add: example_series_def pb_getters dom)
  have len: "length (labels_of (example_series [])) = 2"
    by (simp add: labels_of_example_series example_labels_def)
  from resource_labels_precede_metric_labels [of "example_series []"] show ?thesis
    unfolding Let_def card len by (simp add: numeral_2_eq_2 less_Suc_eq)
qed

section \<open>One point\<close>

lemma point_of_Some:
  assumes "GetInterval p = Some interval" and "TypedValue_GetValue (Point_GetValue p) = Some v"
  shows "point_of labels p = Inr
    (let point = \<lparr>Point_Timestamp = AsTime (TimeInterval_StartTime interval),
                  Point_Labels = labels,
                  Point_BoolValue = None, Point_Int64Value = None,
                  Point_DoubleValue = None, Point_StringValue = None,
                  Point_DistributionValue = None\<rparr>
     in case v of
          TypedValue_BoolValue b \<Rightarrow> point\<lparr>Point_BoolValue := Some b\<rparr>
        | TypedValue_Int64Value i \<Rightarrow> point\<lparr>Point_Int64Value := Some i\<rparr>
        | TypedValue_DoubleValue d \<Rightarrow> point\<lparr>Point_DoubleValue := Some d\<rparr>
        | TypedValue_StringValue s \<Rightarrow> point\<lparr>Point_StringValue := Some s\<rparr>
        | TypedValue_DistributionValue dv \<Rightarrow>
            point\<lparr>Point_DistributionValue := Some (DistributionValue_of dv)\<rparr>)"
  using assms by (cases v) (simp_all add: point_of_def)

lemma DistributionValue_of_copies:
  "DistributionValue_Count (DistributionValue_of dv) = GetCount dv"
  "DistributionValue_Mean (DistributionValue_of dv) = GetMean dv"
  "DistributionValue_SumOfSquaredDeviation (DistributionValue_of dv) = GetSumOfSquaredDeviation dv"
  "DistributionValue_BucketCounts (DistributionValue_of dv) = GetBucketCounts dv"
  by (simp_all add: DistributionValue_of_def Let_def split: option.splits)

text \<open>
  Claim C1. For every point that carries an interval and whose value is set to one of the
  five kinds, the flattener returns a point in which exactly one value field is populated,
  the one of that kind, and it holds the source value itself: the same boolean, the same
  64-bit integer, the same 64 float bits, the same string; for a distribution, the
  transcription with the source's count, mean, sum of squared deviation and bucket counts.
\<close>

theorem point_populates_exactly_the_tagged_field:
  assumes "GetInterval p = Some interval"
      and "TypedValue_GetValue (Point_GetValue p) = Some v"
  shows "\<exists>point. point_of labels p = Inr point \<and>
     (case v of
        TypedValue_BoolValue b \<Rightarrow>
          populated_value_fields point = [''BoolValue''] \<and> Point_BoolValue point = Some b
      | TypedValue_Int64Value i \<Rightarrow>
          populated_value_fields point = [''Int64Value''] \<and> Point_Int64Value point = Some i
      | TypedValue_DoubleValue d \<Rightarrow>
          populated_value_fields point = [''DoubleValue''] \<and> Point_DoubleValue point = Some d
      | TypedValue_StringValue s \<Rightarrow>
          populated_value_fields point = [''StringValue''] \<and> Point_StringValue point = Some s
      | TypedValue_DistributionValue dv \<Rightarrow>
          populated_value_fields point = [''DistributionValue''] \<and>
          (\<exists>d. Point_DistributionValue point = Some d \<and>
             DistributionValue_Count d = GetCount dv \<and>
             DistributionValue_Mean d = GetMean dv \<and>
             DistributionValue_SumOfSquaredDeviation d = GetSumOfSquaredDeviation dv \<and>
             DistributionValue_BucketCounts d = GetBucketCounts dv))"
  unfolding point_of_Some [OF assms]
  by (cases v) (simp_all add: populated_value_fields_def DistributionValue_of_copies)

theorem point_populates_exactly_the_tagged_field_witness:
  "GetInterval (Some example_int64_point) = Some (example_interval 1700000000) \<and>
   TypedValue_GetValue (Point_GetValue (Some example_int64_point)) = Some (TypedValue_Int64Value 42) \<and>
   point_of example_labels (Some example_int64_point) = Inr example_int64_output \<and>
   populated_value_fields example_int64_output = [''Int64Value''] \<and>
   Point_Int64Value example_int64_output = Some 42"
proof -
  have h1: "GetInterval (Some example_int64_point) = Some (example_interval 1700000000)"
    by (simp add: GetInterval_def example_int64_point_def)
  have h2: "TypedValue_GetValue (Point_GetValue (Some example_int64_point)) =
      Some (TypedValue_Int64Value 42)"
    by (simp add: TypedValue_GetValue_def Point_GetValue_def example_int64_point_def)
  from point_populates_exactly_the_tagged_field [OF h1 h2, of example_labels]
  obtain point where point: "point_of example_labels (Some example_int64_point) = Inr point"
    and fields: "populated_value_fields point = [''Int64Value'']"
    and val: "Point_Int64Value point = Some 42"
    by auto
  from point have "point = example_int64_output"
    by (simp add: point_of_example_int64)
  with h1 h2 point fields val show ?thesis
    by blast
qed

section \<open>Distribution values\<close>

lemma DistributionValue_of_Range:
  "DistributionValue_Range (DistributionValue_of (Some src)) =
     (case pb_Range src of
        None \<Rightarrow> None
      | Some r \<Rightarrow> Some \<lparr>Range_Min = pb_Range_Min r, Range_Max = pb_Range_Max r\<rparr>)"
  by (simp add: DistributionValue_of_def Let_def GetRange_def GetBucketOptions_def GetMin_def
      GetMax_def split: option.splits)

lemma DistributionValue_of_BucketOptions:
  "DistributionValue_BucketOptions (DistributionValue_of (Some src)) =
     (case pb_BucketOptions src of
        None \<Rightarrow> None
      | Some bo \<Rightarrow> Some \<lparr>BucketOptions_Options = Some (OptionsUnion_of (Some bo))\<rparr>)"
  by (simp add: DistributionValue_of_def Let_def GetRange_def GetBucketOptions_def
      split: option.splits)

lemma OptionsUnion_of_layout:
  "OptionsUnion_of (Some bo) =
     (case pb_BucketOptions_Options bo of
        None \<Rightarrow>
          \<lparr>OptionsUnion_LinearBuckets = None, OptionsUnion_ExponentialBuckets = None,
           OptionsUnion_ExplicitBuckets = None\<rparr>
      | Some (Distribution_BucketOptions_LinearBuckets l) \<Rightarrow>
          \<lparr>OptionsUnion_LinearBuckets = Some
             \<lparr>LinearBuckets_NumFiniteBuckets = Linear_GetNumFiniteBuckets l,
              LinearBuckets_Width = GetWidth l,
              LinearBuckets_Offset = GetOffset l\<rparr>,
           OptionsUnion_ExponentialBuckets = None,
           OptionsUnion_ExplicitBuckets = None\<rparr>
      | Some (Distribution_BucketOptions_ExponentialBuckets e) \<Rightarrow>
          \<lparr>OptionsUnion_LinearBuckets = None,
           OptionsUnion_ExponentialBuckets = Some
             \<lparr>ExponentialBuckets_NumFiniteBuckets = Exponential_GetNumFiniteBuckets e,
              ExponentialBuckets_GrowthFactor = GetGrowthFactor e,
              ExponentialBuckets_Scale = GetScale e\<rparr>,
           OptionsUnion_ExplicitBuckets = None\<rparr>
      | Some (Distribution_BucketOptions_ExplicitBuckets x) \<Rightarrow>
          \<lparr>OptionsUnion_LinearBuckets = None,
           OptionsUnion_ExponentialBuckets = None,
           OptionsUnion_ExplicitBuckets = Some \<lparr>ExplicitBuckets_Bounds = GetBounds x\<rparr>\<rparr>)"
  by (simp add: OptionsUnion_of_def GetOptions_def split: option.splits pb_Options.splits)

text \<open>
  Claim C3. For every point that carries an interval and a distribution value \<open>src\<close>, the
  output distribution has the count, mean, sum of squared deviation and bucket-count
  sequence of \<open>src\<close> unchanged. Its range is absent when the source range is absent and
  holds the source minimum and maximum otherwise. Its bucket options are absent when the
  source has none; otherwise they are present, and the layout union has all three fields
  absent when the source declares no layout and exactly the declared one populated, with
  the source's fields, otherwise.
\<close>

theorem distribution_is_transcribed:
  assumes "GetInterval p = Some interval"
      and "TypedValue_GetValue (Point_GetValue p) = Some (TypedValue_DistributionValue (Some src))"
  shows "\<exists>point d. point_of labels p = Inr point \<and> Point_DistributionValue point = Some d \<and>
     DistributionValue_Count d = pb_Count src \<and>
     DistributionValue_Mean d = pb_Mean src \<and>
     DistributionValue_SumOfSquaredDeviation d = pb_SumOfSquaredDeviation src \<and>
     DistributionValue_BucketCounts d = pb_BucketCounts src \<and>
     DistributionValue_Range d =
       (case pb_Range src of
          None \<Rightarrow> None
        | Some r \<Rightarrow> Some \<lparr>Range_Min = pb_Range_Min r, Range_Max = pb_Range_Max r\<rparr>) \<and>
     DistributionValue_BucketOptions d =
       (case pb_BucketOptions src of
          None \<Rightarrow> None
        | Some bo \<Rightarrow> Some \<lparr>BucketOptions_Options = Some
            (case pb_BucketOptions_Options bo of
               None \<Rightarrow>
                 \<lparr>OptionsUnion_LinearBuckets = None, OptionsUnion_ExponentialBuckets = None,
                  OptionsUnion_ExplicitBuckets = None\<rparr>
             | Some (Distribution_BucketOptions_LinearBuckets l) \<Rightarrow>
                 \<lparr>OptionsUnion_LinearBuckets = Some
                    \<lparr>LinearBuckets_NumFiniteBuckets = Linear_GetNumFiniteBuckets l,
                     LinearBuckets_Width = GetWidth l,
                     LinearBuckets_Offset = GetOffset l\<rparr>,
                  OptionsUnion_ExponentialBuckets = None,
                  OptionsUnion_ExplicitBuckets = None\<rparr>
             | Some (Distribution_BucketOptions_ExponentialBuckets e) \<Rightarrow>
                 \<lparr>OptionsUnion_LinearBuckets = None,
                  OptionsUnion_ExponentialBuckets = Some
                    \<lparr>ExponentialBuckets_NumFiniteBuckets = Exponential_GetNumFiniteBuckets e,
                     ExponentialBuckets_GrowthFactor = GetGrowthFactor e,
                     ExponentialBuckets_Scale = GetScale e\<rparr>,
                  OptionsUnion_ExplicitBuckets = None\<rparr>
             | Some (Distribution_BucketOptions_ExplicitBuckets x) \<Rightarrow>
                 \<lparr>OptionsUnion_LinearBuckets = None,
                  OptionsUnion_ExponentialBuckets = None,
                  OptionsUnion_ExplicitBuckets = Some \<lparr>ExplicitBuckets_Bounds = GetBounds x\<rparr>\<rparr>)\<rparr>)"
proof -
  have "DistributionValue_BucketOptions (DistributionValue_of (Some src)) =
       (case pb_BucketOptions src of
          None \<Rightarrow> None
        | Some bo \<Rightarrow> Some \<lparr>BucketOptions_Options = Some
            (case pb_BucketOptions_Options bo of
               None \<Rightarrow>
                 \<lparr>OptionsUnion_LinearBuckets = None, OptionsUnion_ExponentialBuckets = None,
                  OptionsUnion_ExplicitBuckets = None\<rparr>
             | Some (Distribution_BucketOptions_LinearBuckets l) \<Rightarrow>
                 \<lparr>OptionsUnion_LinearBuckets = Some
                    \<lparr>LinearBuckets_NumFiniteBuckets = Linear_GetNumFiniteBuckets l,
                     LinearBuckets_Width = GetWidth l,
                     LinearBuckets_Offset = GetOffset l\<rparr>,
                  OptionsUnion_ExponentialBuckets = None,
                  OptionsUnion_ExplicitBuckets = None\<rparr>
             | Some (Distribution_BucketOptions_ExponentialBuckets e) \<Rightarrow>
                 \<lparr>OptionsUnion_LinearBuckets = None,
                  OptionsUnion_ExponentialBuckets = Some
                    \<lparr>ExponentialBuckets_NumFiniteBuckets = Exponential_GetNumFiniteBuckets e,
                     ExponentialBuckets_GrowthFactor = GetGrowthFactor e,
                     ExponentialBuckets_Scale = GetScale e\<rparr>,
                  OptionsUnion_ExplicitBuckets = None\<rparr>
             | Some (Distribution_BucketOptions_ExplicitBuckets x) \<Rightarrow>
                 \<lparr>OptionsUnion_LinearBuckets = None,
                  OptionsUnion_ExponentialBuckets = None,
                  OptionsUnion_ExplicitBuckets = Some \<lparr>ExplicitBuckets_Bounds = GetBounds x\<rparr>\<rparr>)\<rparr>)"
    unfolding DistributionValue_of_BucketOptions
    by (simp add: OptionsUnion_of_layout split: option.splits)
  moreover have "DistributionValue_Count (DistributionValue_of (Some src)) = pb_Count src"
    "DistributionValue_Mean (DistributionValue_of (Some src)) = pb_Mean src"
    "DistributionValue_SumOfSquaredDeviation (DistributionValue_of (Some src))
       = pb_SumOfSquaredDeviation src"
    "DistributionValue_BucketCounts (DistributionValue_of (Some src)) = pb_BucketCounts src"
    by (simp_all add: DistributionValue_of_copies GetCount_def GetMean_def
        GetSumOfSquaredDeviation_def GetBucketCounts_def)
  moreover have "Point_DistributionValue
      (\<lparr>Point_Timestamp = t, Point_Labels = labels, Point_BoolValue = None,
        Point_Int64Value = None, Point_DoubleValue = None, Point_StringValue = None,
        Point_DistributionValue = None\<rparr>\<lparr>Point_DistributionValue := Some dv\<rparr>) = Some dv" for t dv
    by simp
  ultimately show ?thesis
    unfolding point_of_Some [OF assms]
    by (simp add: DistributionValue_of_Range)
qed

theorem distribution_is_transcribed_witness:
  "GetInterval (Some example_distribution_point) = Some (example_interval 1700000060) \<and>
   TypedValue_GetValue (Point_GetValue (Some example_distribution_point)) =
     Some (TypedValue_DistributionValue (Some example_distribution)) \<and>
   point_of example_labels (Some example_distribution_point) = Inr example_distribution_output \<and>
   map_option DistributionValue_BucketCounts (Point_DistributionValue example_distribution_output)
     = Some (Some [1, 2, 0]) \<and>
   map_option DistributionValue_Range (Point_DistributionValue example_distribution_output)
     = Some None"
proof -
  have h1: "GetInterval (Some example_distribution_point) = Some (example_interval 1700000060)"
    by (simp add: GetInterval_def example_distribution_point_def)
  have h2: "TypedValue_GetValue (Point_GetValue (Some example_distribution_point)) =
      Some (TypedValue_DistributionValue (Some example_distribution))"
    by (simp add: TypedValue_GetValue_def Point_GetValue_def example_distribution_point_def)
  from distribution_is_transcribed [OF h1 h2, of example_labels]
  obtain point d where point: "point_of example_labels (Some example_distribution_point) = Inr point"
    and d: "Point_DistributionValue point = Some d"
    and counts: "DistributionValue_BucketCounts d = pb_BucketCounts example_distribution"
    and range: "DistributionValue_Range d =
       (case pb_Range example_distribution of
          None \<Rightarrow> None
        | Some r \<Rightarrow> Some \<lparr>Range_Min = pb_Range_Min r, Range_Max = pb_Range_Max r\<rparr>)"
    by blast
  from point have "point = example_distribution_output"
    by (simp add: point_of_example_distribution)
  with d counts range have
    "map_option DistributionValue_BucketCounts (Point_DistributionValue example_distribution_output)
       = Some (Some [1, 2, 0])"
    "map_option DistributionValue_Range (Point_DistributionValue example_distribution_output)
       = Some None"
    by (simp_all add: example_distribution_def)
  with h1 h2 point_of_example_distribution show ?thesis
    by blast
qed

section \<open>Order of the points\<close>

text \<open>
  Claim C8. For every time series whose points are all flattened, the output list has one
  point for each source point, at the same position (the points are taken in the order
  returned, with no re-sorting), and the timestamp of each output point is the start time
  of the interval of its source point.
\<close>

theorem points_keep_order_and_interval_start:
  assumes "points_loop labels ps [] = Inr points"
  shows "length points = length ps \<and>
     (\<forall>i < length ps.
        point_of labels (ps ! i) = Inr (points ! i) \<and>
        (\<exists>interval. GetInterval (ps ! i) = Some interval \<and>
           Point_Timestamp (points ! i) = AsTime (TimeInterval_StartTime interval)))"
  using points_loop_Nil_Inr [OF assms] point_of_Timestamp by blast

theorem points_keep_order_and_interval_start_witness:
  "points_loop example_labels [Some example_int64_point, Some example_distribution_point] [] =
     Inr [example_int64_output, example_distribution_output] \<and>
   length [example_int64_output, example_distribution_output] = 2 \<and>
   Point_Timestamp ([example_int64_output, example_distribution_output] ! 0) =
     AsTime (Some \<lparr>Timestamp_Seconds = 1700000000, Timestamp_Nanos = 0\<rparr>) \<and>
   Point_Timestamp ([example_int64_output, example_distribution_output] ! 1) =
     AsTime (Some \<lparr>Timestamp_Seconds = 1700000060, Timestamp_Nanos = 0\<rparr>)"
proof -
  let ?ps = "[Some example_int64_point, Some example_distribution_point]"
  let ?points = "[example_int64_output, example_distribution_output]"
  note inst = points_keep_order_and_interval_start [OF points_loop_example]
  then have len: "length ?points = length ?ps"
    and at: "\<And>i. i < length ?ps \<Longrightarrow> \<exists>interval. GetInterval (?ps ! i) = Some interval \<and>
           Point_Timestamp (?points ! i) = AsTime (TimeInterval_StartTime interval)"
    by blast+
  have "Point_Timestamp (?points ! 0) =
      AsTime (Some \<lparr>Timestamp_Seconds = 1700000000, Timestamp_Nanos = 0\<rparr>)"
    using at [of 0]
    by (auto simp: GetInterval_def example_int64_point_def example_interval_def)
  moreover have "Point_Timestamp (?points ! 1) =
      AsTime (Some \<lparr>Timestamp_Seconds = 1700000060, Timestamp_Nanos = 0\<rparr>)"
    using at [of 1]
    by (auto simp: GetInterval_def example_distribution_point_def example_interval_def)
  ultimately show ?thesis
    using len points_loop_example by simp
qed

section \<open>Lemmas on the series loop\<close>

lemma series_loop_resp:
  "series_loop (Next_resp resp # it) out =
     (case series_line resp of
        Inl err \<Rightarrow> (Some err, out)
      | Inr line \<Rightarrow> series_loop it (out @ [Println line]))"
  by (simp add: series_line_def split: sum.splits)

lemma series_loop_printed:
  "list_all2 (\<lambda>resp line. series_line resp = Inr line) series lines \<Longrightarrow>
     series_loop (map Next_resp series @ rest) out = series_loop rest (out @ map Println lines)"
proof (induction series lines arbitrary: out rule: list_all2_induct)
  case Nil
  then show ?case by simp
next
  case (Cons resp series line lines)
  have "series_loop (map Next_resp (resp # series) @ rest) out =
      series_loop (map Next_resp series @ rest) (out @ [Println line])"
    using Cons.hyps(1) by (simp only: list.map append_Cons series_loop_resp sum.case)
  also have "\<dots> = series_loop rest ((out @ [Println line]) @ map Println lines)"
    by (rule Cons.IH)
  finally show ?case by simp
qed







section \<open>Lemmas on json.Marshal\<close>

lemma sequence_elems_Inr:
  "sequence_elems rs = Inr js \<Longrightarrow>
     length js = length rs \<and> (\<forall>i < length rs. rs ! i = Inr (js ! i))"
proof (induction rs arbitrary: js)
  case Nil
  then show ?case by simp
next
  case (Cons r rs)
  from Cons.prems obtain j js' where r: "r = Inr j" and rest: "sequence_elems rs = Inr js'"
    and js: "js = j # js'"
    by (auto split: sum.splits)
  from Cons.IH [OF rest] r js show ?case
    by (auto simp: nth_Cons split: nat.splits)
qed

lemma Marshal_slice_Inr:
  assumes "Marshal_slice f xs = Inr j"
  shows "\<exists>docs. j = JArray docs \<and> length docs = length xs \<and>
           (\<forall>i < length xs. f (xs ! i) = Inr (docs ! i))"
proof -
  from assms obtain docs where docs: "sequence_elems (map f xs) = Inr docs" and j: "j = JArray docs"
    by (auto simp: Marshal_slice_def split: sum.splits)
  from sequence_elems_Inr [OF docs] j show ?thesis by auto
qed

lemma json_Marshal_Nil: "json_Marshal [] = Inr (JArray [])"
  by (simp add: json_Marshal_def Marshal_slice_def)

lemma series_line_no_points: "GetPoints resp = [] \<Longrightarrow> series_line resp = Inr (JArray [])"
  by (simp add: series_line_def json_Marshal_Nil)

lemma series_line_Inr:
  assumes "series_line resp = Inr line"
  shows "\<exists>docs. line = JArray docs \<and> length docs = length (GetPoints resp)"
proof -
  from assms obtain points where points: "points_loop (labels_of resp) (GetPoints resp) [] = Inr points"
    and line: "json_Marshal points = Inr line"
    by (auto simp: series_line_def split: sum.splits)
  from Marshal_slice_Inr [OF line [unfolded json_Marshal_def]] points_loop_Nil_Inr(1) [OF points]
  show ?thesis by auto
qed

section \<open>Lemmas on the failures of one series\<close>

lemma point_of_Inl:
  "point_of labels p = Inl err \<Longrightarrow>
     (err = nil_pointer_dereference \<and> GetInterval p = None) \<or>
     (err = Not_supported_metric_type None \<and> GetInterval p \<noteq> None \<and>
        TypedValue_GetValue (Point_GetValue p) = None)"
  by (auto simp: point_of_def Let_def split: option.splits TypedValue_Value.splits)

lemma point_of_Inr_iff:
  "(\<exists>point. point_of labels p = Inr point) \<longleftrightarrow>
     GetInterval p \<noteq> None \<and> TypedValue_GetValue (Point_GetValue p) \<noteq> None"
  by (auto simp: point_of_def Let_def split: option.splits TypedValue_Value.splits)

lemma points_loop_Inl:
  "points_loop labels ps acc = Inl err \<Longrightarrow> \<exists>p \<in> set ps. point_of labels p = Inl err"
  by (induction ps arbitrary: acc) (auto split: sum.splits)

lemma sequence_fields_Inl: "sequence_fields fs = Inl err \<Longrightarrow> Inl err \<in> snd ` set fs"
  by (induction fs rule: sequence_fields.induct) (auto split: sum.splits)

lemma Marshal_struct_Inl: "Marshal_struct fs = Inl err \<Longrightarrow> Inl err \<in> snd ` set fs"
  by (auto simp: Marshal_struct_def split: sum.splits dest: sequence_fields_Inl)

lemma sequence_elems_Inl: "sequence_elems rs = Inl err \<Longrightarrow> Inl err \<in> set rs"
  by (induction rs) (auto split: sum.splits)

lemma Marshal_slice_Inl:
  assumes "Marshal_slice f xs = Inl err"
  shows "\<exists>x \<in> set xs. f x = Inl err"
proof -
  from assms have "sequence_elems (map f xs) = Inl err"
    by (auto simp: Marshal_slice_def split: sum.splits)
  then have "Inl err \<in> f ` set xs"
    using sequence_elems_Inl by fastforce
  then obtain x where "x \<in> set xs" "Inl err = f x" by blast
  then show ?thesis by (intro bexI [of _ x]) simp_all
qed

lemma Marshal_nilable_Inl: "Marshal_nilable f x = Inl err \<Longrightarrow> \<exists>v. x = Some v \<and> f v = Inl err"
  by (cases x) (simp_all add: Marshal_nilable_def)

lemma Marshal_float64_Inl: "Marshal_float64 f = Inl err \<Longrightarrow> json_Marshal_error err"
  by (auto simp: Marshal_float64_def json_Marshal_error_def split: if_splits)

lemma Marshal_Time_Inl: "Marshal_Time t = Inl err \<Longrightarrow> json_Marshal_error err"
  by (auto simp: Marshal_Time_def json_Marshal_error_def split: if_splits)

lemma Marshal_KeyValue_Inr: "\<exists>j. Marshal_KeyValue kv = Inr j"
  by (simp add: Marshal_KeyValue_def Marshal_struct_def)

lemmas Marshal_leaf_Inl = Marshal_float64_Inl [OF sym] Marshal_Time_Inl [OF sym]

lemma Marshal_Range_Inl: "Marshal_Range r = Inl err \<Longrightarrow> json_Marshal_error err"
  by (auto simp: Marshal_Range_def dest!: Marshal_struct_Inl dest: Marshal_leaf_Inl)

lemma Marshal_LinearBuckets_Inl: "Marshal_LinearBuckets l = Inl err \<Longrightarrow> json_Marshal_error err"
  by (auto simp: Marshal_LinearBuckets_def dest!: Marshal_struct_Inl dest: Marshal_leaf_Inl)

lemma Marshal_ExponentialBuckets_Inl:
  "Marshal_ExponentialBuckets e = Inl err \<Longrightarrow> json_Marshal_error err"
  by (auto simp: Marshal_ExponentialBuckets_def dest!: Marshal_struct_Inl dest: Marshal_leaf_Inl)

lemma Marshal_ExplicitBuckets_Inl: "Marshal_ExplicitBuckets x = Inl err \<Longrightarrow> json_Marshal_error err"
  by (auto simp: Marshal_ExplicitBuckets_def
      dest!: Marshal_struct_Inl Marshal_nilable_Inl [OF sym] Marshal_slice_Inl
      dest: Marshal_float64_Inl)

lemma Marshal_OptionsUnion_Inl: "Marshal_OptionsUnion ou = Inl err \<Longrightarrow> json_Marshal_error err"
  by (auto simp: Marshal_OptionsUnion_def dest!: Marshal_struct_Inl Marshal_nilable_Inl [OF sym]
      dest: Marshal_LinearBuckets_Inl Marshal_ExponentialBuckets_Inl Marshal_ExplicitBuckets_Inl)

lemma Marshal_BucketOptions_Inl: "Marshal_BucketOptions bo = Inl err \<Longrightarrow> json_Marshal_error err"
  by (auto simp: Marshal_BucketOptions_def dest!: Marshal_struct_Inl Marshal_nilable_Inl [OF sym]
      dest: Marshal_OptionsUnion_Inl)

lemma Marshal_DistributionValue_Inl:
  "Marshal_DistributionValue d = Inl err \<Longrightarrow> json_Marshal_error err"
  by (auto simp: Marshal_DistributionValue_def
      dest!: Marshal_struct_Inl Marshal_nilable_Inl [OF sym] Marshal_slice_Inl
      dest: Marshal_leaf_Inl Marshal_Range_Inl Marshal_BucketOptions_Inl)

lemma Marshal_Point_Inl: "Marshal_Point point = Inl err \<Longrightarrow> json_Marshal_error err"
proof -
  assume "Marshal_Point point = Inl err"
  then have "Inl err \<in> snd ` set
     [(''timestamp'', Marshal_Time (Point_Timestamp point)),
      (''labels'', Marshal_slice Marshal_KeyValue (Point_Labels point)),
      (''bool_value'', Marshal_nilable (\<lambda>b. Inr (JBool b)) (Point_BoolValue point)),
      (''int64_value'', Marshal_nilable (\<lambda>i. Inr (JInt i)) (Point_Int64Value point)),
      (''double_value'', Marshal_nilable Marshal_float64 (Point_DoubleValue point)),
      (''string_value'', Marshal_nilable (\<lambda>s. Inr (JString s)) (Point_StringValue point)),
      (''distribution_value'',
         Marshal_nilable Marshal_DistributionValue (Point_DistributionValue point))]"
    unfolding Marshal_Point_def by (rule Marshal_struct_Inl)
  then consider "Marshal_Time (Point_Timestamp point) = Inl err"
    | "Marshal_slice Marshal_KeyValue (Point_Labels point) = Inl err"
    | "Marshal_nilable (\<lambda>b. Inr (JBool b)) (Point_BoolValue point) = Inl err"
    | "Marshal_nilable (\<lambda>i. Inr (JInt i)) (Point_Int64Value point) = Inl err"
    | "Marshal_nilable Marshal_float64 (Point_DoubleValue point) = Inl err"
    | "Marshal_nilable (\<lambda>s. Inr (JString s)) (Point_StringValue point) = Inl err"
    | "Marshal_nilable Marshal_DistributionValue (Point_DistributionValue point) = Inl err"
    by auto
  then show ?thesis
  proof cases
    case 1
    then show ?thesis by (rule Marshal_Time_Inl)
  next
    case 2
    then obtain kv where "Marshal_KeyValue kv = Inl err"
      by (auto dest!: Marshal_slice_Inl)
    with Marshal_KeyValue_Inr [of kv] show ?thesis by simp
  next
    case 3
    then show ?thesis by (auto dest!: Marshal_nilable_Inl)
  next
    case 4
    then show ?thesis by (auto dest!: Marshal_nilable_Inl)
  next
    case 5
    then show ?thesis by (auto dest!: Marshal_nilable_Inl dest: Marshal_float64_Inl)
  next
    case 6
    then show ?thesis by (auto dest!: Marshal_nilable_Inl)
  next
    case 7
    then show ?thesis by (auto dest!: Marshal_nilable_Inl dest: Marshal_DistributionValue_Inl)
  qed
qed

lemma json_Marshal_Inl: "json_Marshal points = Inl err \<Longrightarrow> json_Marshal_error err"
  by (auto simp: json_Marshal_def dest!: Marshal_slice_Inl dest: Marshal_Point_Inl)

lemma series_line_Inl:
  assumes "series_line resp = Inl err"
  shows "(err = nil_pointer_dereference \<and> (\<exists>p \<in> set (GetPoints resp). GetInterval p = None)) \<or>
     (err = Not_supported_metric_type None \<and>
        (\<exists>p \<in> set (GetPoints resp). TypedValue_GetValue (Point_GetValue p) = None)) \<or>
     (json_Marshal_error err \<and>
        (\<exists>points. points_loop (labels_of resp) (GetPoints resp) [] = Inr points \<and>
           json_Marshal points = Inl err))"
proof (cases "points_loop (labels_of resp) (GetPoints resp) []")
  case (Inl e)
  with assms have "e = err" by (simp add: series_line_def)
  with Inl obtain p where "p \<in> set (GetPoints resp)" "point_of (labels_of resp) p = Inl err"
    using points_loop_Inl by blast
  then show ?thesis
    using point_of_Inl [of "labels_of resp" p err] by blast
next
  case (Inr points)
  with assms have "json_Marshal points = Inl err" by (simp add: series_line_def)
  with Inr show ?thesis
    using json_Marshal_Inl by blast
qed

lemma series_line_Inr_iff:
  "(\<exists>line. series_line resp = Inr line) \<longleftrightarrow>
     (\<forall>p \<in> set (GetPoints resp).
        GetInterval p \<noteq> None \<and> TypedValue_GetValue (Point_GetValue p) \<noteq> None) \<and>
     (\<exists>points line. points_loop (labels_of resp) (GetPoints resp) [] = Inr points \<and>
        json_Marshal points = Inr line)"
proof
  assume "\<exists>line. series_line resp = Inr line"
  then obtain line points where points: "points_loop (labels_of resp) (GetPoints resp) [] = Inr points"
    and line: "json_Marshal points = Inr line"
    by (auto simp: series_line_def split: sum.splits)
  have "GetInterval p \<noteq> None \<and> TypedValue_GetValue (Point_GetValue p) \<noteq> None"
    if "p \<in> set (GetPoints resp)" for p
  proof -
    from that obtain i where "i < length (GetPoints resp)" "GetPoints resp ! i = p"
      by (auto simp: in_set_conv_nth)
    with points_loop_Nil_Inr(2) [OF points] have "\<exists>point. point_of (labels_of resp) p = Inr point"
      by auto
    then show ?thesis by (simp add: point_of_Inr_iff)
  qed
  with points line show "(\<forall>p \<in> set (GetPoints resp).
        GetInterval p \<noteq> None \<and> TypedValue_GetValue (Point_GetValue p) \<noteq> None) \<and>
     (\<exists>points line. points_loop (labels_of resp) (GetPoints resp) [] = Inr points \<and>
        json_Marshal points = Inr line)"
    by blast
next
  assume "(\<forall>p \<in> set (GetPoints resp).
        GetInterval p \<noteq> None \<and> TypedValue_GetValue (Point_GetValue p) \<noteq> None) \<and>
     (\<exists>points line. points_loop (labels_of resp) (GetPoints resp) [] = Inr points \<and>
        json_Marshal points = Inr line)"
  then show "\<exists>line. series_line resp = Inr line"
    by (auto simp: series_line_def)
qed

lemma series_loop_decomposition:
  "\<exists>series lines rest.
     it = map Next_resp series @ rest \<and>
     list_all2 (\<lambda>resp line. series_line resp = Inr line) series lines \<and>
     (rest = [] \<or> (\<exists>err rest'. rest = Next_err err # rest') \<or>
      (\<exists>resp rest' err. rest = Next_resp resp # rest' \<and> series_line resp = Inl err))"
proof (induction it)
  case Nil
  show ?case
    by (rule exI [of _ "[]"], rule exI [of _ "[]"], rule exI [of _ "[]"]) simp
next
  case (Cons x it)
  show ?case
  proof (cases x)
    case (Next_err err)
    show ?thesis
      by (rule exI [of _ "[]"], rule exI [of _ "[]"], rule exI [of _ "x # it"])
        (simp add: Next_err)
  next
    case (Next_resp resp)
    show ?thesis
    proof (cases "series_line resp")
      case (Inl err)
      show ?thesis
        by (rule exI [of _ "[]"], rule exI [of _ "[]"], rule exI [of _ "x # it"])
          (simp add: Next_resp Inl)
    next
      case (Inr line)
      from Cons.IH obtain series lines rest where
        it: "it = map Next_resp series @ rest"
        and all: "list_all2 (\<lambda>resp line. series_line resp = Inr line) series lines"
        and rest: "rest = [] \<or> (\<exists>err rest'. rest = Next_err err # rest') \<or>
          (\<exists>resp rest' err. rest = Next_resp resp # rest' \<and> series_line resp = Inl err)"
        by blast
      show ?thesis
        by (rule exI [of _ "resp # series"], rule exI [of _ "line # lines"], rule exI [of _ rest])
          (use it all rest Inr Next_resp in simp)
    qed
  qed
qed



section \<open>A point without a supported value\<close>




section \<open>What a run prints\<close>

text \<open>
  Claim C5, as stated, fails: a series is not printed when one of its points has no
  supported value. The run below fetches one series and prints no line.
\<close>

theorem series_with_unsupported_point_prints_no_line:
  "readAndPrintTimeSeriesFields
     (example_backend [Next_resp (example_series [Some example_unset_point])])
     ''p'' ''m'' ''r'' \<lparr>Time_sec = 0, Time_nsec = 0\<rparr> \<lparr>Time_sec = 600, Time_nsec = 0\<rparr> [] =
     (Some (Not_supported_metric_type None), [])"
proof -
  have "series_line (example_series [Some example_unset_point]) =
      Inl (Not_supported_metric_type None)"
    by (simp add: series_line_def GetPoints_def example_series_def point_of_example_unset)
  then show ?thesis
    by (simp only: readAndPrintTimeSeriesFields_def example_backend_def Backend.simps
        option.case series_loop_resp sum.case)
qed

text \<open>
  Claim C5, amended. Every sequence yielded by the fetcher splits, in one way, into the
  series processed without failure and a rest that is empty, or begins with a fetch error,
  or begins with a series whose processing fails. With the client created, the run prints
  exactly one line for each series of the first part, in fetch order, and nothing else:
  nothing before, between or after these lines, and nothing for the series at which the
  run fails or for any later item. It returns no error when the rest is empty, the fetch
  error when the rest begins with one, and the failure of the series otherwise. Each line
  is one JSON array with one entry for each point of its series. A series is processed
  without failure exactly when each of its points carries an interval and a value of a
  supported kind and \<^verbatim>\<open>json.Marshal\<close> accepts the flattened points; its failure is
  otherwise the panic on a point without interval, the error for a value that is not set,
  or the error of \<^verbatim>\<open>json.Marshal\<close> (a float that is NaN or infinite, a year outside 0 to
  9999). A series with zero points is always processed without failure and its line is the
  empty array.
\<close>

theorem each_processed_series_prints_one_array:
  assumes "NewMetricClient backend = None"
      and "ListTimeSeries backend (req projectID metricType resourceType startTime endTime) =
             map Next_resp series @ rest"
      and "list_all2 (\<lambda>resp line. series_line resp = Inr line) series lines"
  shows "(rest = [] \<longrightarrow>
            readAndPrintTimeSeriesFields backend projectID metricType resourceType startTime endTime out
              = (None, out @ map Println lines)) \<and>
         (\<forall>err rest'. rest = Next_err err # rest' \<longrightarrow>
            readAndPrintTimeSeriesFields backend projectID metricType resourceType startTime endTime out
              = (Some (could_not_read_time_series_value err), out @ map Println lines)) \<and>
         (\<forall>resp rest' err. rest = Next_resp resp # rest' \<and> series_line resp = Inl err \<longrightarrow>
            readAndPrintTimeSeriesFields backend projectID metricType resourceType startTime endTime out
              = (Some err, out @ map Println lines)) \<and>
         length lines = length series \<and>
         (\<forall>i < length series.
            \<exists>docs. lines ! i = JArray docs \<and> length docs = length (GetPoints (series ! i))) \<and>
         (\<forall>it. \<exists>series lines rest.
            it = map Next_resp series @ rest \<and>
            list_all2 (\<lambda>resp line. series_line resp = Inr line) series lines \<and>
            (rest = [] \<or> (\<exists>err rest'. rest = Next_err err # rest') \<or>
             (\<exists>resp rest' err. rest = Next_resp resp # rest' \<and> series_line resp = Inl err))) \<and>
         (\<forall>resp. (\<exists>line. series_line resp = Inr line) \<longleftrightarrow>
            (\<forall>p \<in> set (GetPoints resp).
               GetInterval p \<noteq> None \<and> TypedValue_GetValue (Point_GetValue p) \<noteq> None) \<and>
            (\<exists>points line. points_loop (labels_of resp) (GetPoints resp) [] = Inr points \<and>
               json_Marshal points = Inr line)) \<and>
         (\<forall>resp err. series_line resp = Inl err \<longrightarrow>
            (err = nil_pointer_dereference \<and> (\<exists>p \<in> set (GetPoints resp). GetInterval p = None)) \<or>
            (err = Not_supported_metric_type None \<and>
               (\<exists>p \<in> set (GetPoints resp). TypedValue_GetValue (Point_GetValue p) = None)) \<or>
            (json_Marshal_error err \<and>
               (\<exists>points. points_loop (labels_of resp) (GetPoints resp) [] = Inr points \<and>
                  json_Marshal points = Inl err))) \<and>
         (\<forall>resp. GetPoints resp = [] \<longrightarrow> series_line resp = Inr (JArray []))"
proof -
  let ?run = "readAndPrintTimeSeriesFields backend projectID metricType resourceType startTime endTime out"
  have run: "?run = series_loop rest (out @ map Println lines)"
    using series_loop_printed [OF assms(3), of rest out]
    by (simp add: readAndPrintTimeSeriesFields_def assms(1,2))
  have ended: "?run = (None, out @ map Println lines)" if "rest = []"
    unfolding run that by simp
  have fetch: "?run = (Some (could_not_read_time_series_value err), out @ map Println lines)"
    if "rest = Next_err err # rest'" for err rest'
    unfolding run that by simp
  have fails: "?run = (Some err, out @ map Println lines)"
    if "rest = Next_resp resp # rest'" "series_line resp = Inl err" for resp rest' err
    unfolding run that(1) using that(2) by (simp only: series_loop_resp sum.case)
  have len: "length lines = length series"
    using assms(3) by (simp add: list_all2_lengthD)
  have arrays: "\<exists>docs. lines ! i = JArray docs \<and> length docs = length (GetPoints (series ! i))"
    if "i < length series" for i
    using list_all2_nthD [OF assms(3) that] by (rule series_line_Inr)
  have split: "\<forall>it. \<exists>series lines rest.
            it = map Next_resp series @ rest \<and>
            list_all2 (\<lambda>resp line. series_line resp = Inr line) series lines \<and>
            (rest = [] \<or> (\<exists>err rest'. rest = Next_err err # rest') \<or>
             (\<exists>resp rest' err. rest = Next_resp resp # rest' \<and> series_line resp = Inl err))"
    using series_loop_decomposition by blast
  have ok: "\<forall>resp. (\<exists>line. series_line resp = Inr line) \<longleftrightarrow>
            (\<forall>p \<in> set (GetPoints resp).
               GetInterval p \<noteq> None \<and> TypedValue_GetValue (Point_GetValue p) \<noteq> None) \<and>
            (\<exists>points line. points_loop (labels_of resp) (GetPoints resp) [] = Inr points \<and>
               json_Marshal points = Inr line)"
    using series_line_Inr_iff by blast
  have bad: "\<forall>resp err. series_line resp = Inl err \<longrightarrow>
            (err = nil_pointer_dereference \<and> (\<exists>p \<in> set (GetPoints resp). GetInterval p = None)) \<or>
            (err = Not_supported_metric_type None \<and>
               (\<exists>p \<in> set (GetPoints resp). TypedValue_GetValue (Point_GetValue p) = None)) \<or>
            (json_Marshal_error err \<and>
               (\<exists>points. points_loop (labels_of resp) (GetPoints resp) [] = Inr points \<and>
                  json_Marshal points = Inl err))"
    using series_line_Inl by blast
  have empty: "\<forall>resp. GetPoints resp = [] \<longrightarrow> series_line resp = Inr (JArray [])"
    by (simp add: series_line_no_points)
  have c1: "rest = [] \<longrightarrow> ?run = (None, out @ map Println lines)"
    using ended by blast
  have c2: "\<forall>err rest'. rest = Next_err err # rest' \<longrightarrow>
      ?run = (Some (could_not_read_time_series_value err), out @ map Println lines)"
    using fetch by blast
  have c3: "\<forall>resp rest' err. rest = Next_resp resp # rest' \<and> series_line resp = Inl err \<longrightarrow>
      ?run = (Some err, out @ map Println lines)"
    using fails by blast
  have c5: "\<forall>i < length series.
      \<exists>docs. lines ! i = JArray docs \<and> length docs = length (GetPoints (series ! i))"
    using arrays by blast
  show ?thesis
    by (rule conjI c1 c2 c3 len c5 split ok bad empty)+
qed

theorem each_processed_series_prints_one_array_witness:
  "readAndPrintTimeSeriesFields
     (example_backend
        [Next_resp (example_series [Some example_int64_point, Some example_distribution_point]),
         Next_resp (example_series []),
         Next_err ''quota'',
         Next_resp (example_series [])])
     ''p'' ''m'' ''r'' \<lparr>Time_sec = 0, Time_nsec = 0\<rparr> \<lparr>Time_sec = 600, Time_nsec = 0\<rparr> [] =
     (Some (could_not_read_time_series_value ''quota''),
      [Println (JArray [example_int64_json, example_distribution_json]), Println (JArray [])]) \<and>
   readAndPrintTimeSeriesFields
     (example_backend
        [Next_resp (example_series [Some example_int64_point, Some example_distribution_point]),
         Next_resp (example_series [])])
     ''p'' ''m'' ''r'' \<lparr>Time_sec = 0, Time_nsec = 0\<rparr> \<lparr>Time_sec = 600, Time_nsec = 0\<rparr> [] =
     (None, [Println (JArray [example_int64_json, example_distribution_json]), Println (JArray [])])"
proof -
  let ?s = "[example_series [Some example_int64_point, Some example_distribution_point],
             example_series []]"
  let ?start = "\<lparr>Time_sec = 0, Time_nsec = 0\<rparr>" and ?end = "\<lparr>Time_sec = 600, Time_nsec = 0\<rparr>"
  let ?rest = "[Next_err ''quota'', Next_resp (example_series [])]"
  let ?b1 = "example_backend
     [Next_resp (example_series [Some example_int64_point, Some example_distribution_point]),
      Next_resp (example_series []), Next_err ''quota'', Next_resp (example_series [])]"
  let ?b2 = "example_backend
     [Next_resp (example_series [Some example_int64_point, Some example_distribution_point]),
      Next_resp (example_series [])]"
  have lines: "list_all2 (\<lambda>resp line. series_line resp = Inr line) ?s
      [JArray [example_int64_json, example_distribution_json], JArray []]"
    by (simp add: series_line_example series_line_example_empty)
  have c1: "NewMetricClient ?b1 = None" and c2: "NewMetricClient ?b2 = None"
    by (simp_all add: example_backend_def)
  have l1: "ListTimeSeries ?b1 (req ''p'' ''m'' ''r'' ?start ?end) = map Next_resp ?s @ ?rest"
    and l2: "ListTimeSeries ?b2 (req ''p'' ''m'' ''r'' ?start ?end) = map Next_resp ?s @ []"
    by (simp_all add: example_backend_def)
  from each_processed_series_prints_one_array [OF c1 l1 lines, of "[]"]
  have first: "readAndPrintTimeSeriesFields ?b1 ''p'' ''m'' ''r'' ?start ?end [] =
      (Some (could_not_read_time_series_value ''quota''),
       [Println (JArray [example_int64_json, example_distribution_json]), Println (JArray [])])"
    by simp
  from each_processed_series_prints_one_array [OF c2 l2 lines, of "[]"]
  have second: "readAndPrintTimeSeriesFields ?b2 ''p'' ''m'' ''r'' ?start ?end [] =
      (None, [Println (JArray [example_int64_json, example_distribution_json]), Println (JArray [])])"
    by simp
  from first second show ?thesis by simp
qed

section \<open>The serialized point\<close>

lemma Marshal_struct_Inr:
  "Marshal_struct fs = Inr j \<Longrightarrow> \<exists>js. j = JObject js \<and> sequence_fields fs = Inr js"
  by (auto simp: Marshal_struct_def split: sum.splits)

lemma Marshal_float64_not_null: "Marshal_float64 f = Inr j \<Longrightarrow> j \<noteq> JNull"
  by (auto simp: Marshal_float64_def split: if_splits)

lemma Marshal_DistributionValue_not_null: "Marshal_DistributionValue d = Inr j \<Longrightarrow> j \<noteq> JNull"
  by (auto simp: Marshal_DistributionValue_def dest!: Marshal_struct_Inr)

lemma Marshal_Point_fields:
  assumes "Marshal_Point point = Inr doc"
  shows "\<exists>t l b i d s dv.
     doc = JObject [(''timestamp'', t), (''labels'', l), (''bool_value'', b), (''int64_value'', i),
                    (''double_value'', d), (''string_value'', s), (''distribution_value'', dv)] \<and>
     Marshal_nilable (\<lambda>b. Inr (JBool b)) (Point_BoolValue point) = Inr b \<and>
     Marshal_nilable (\<lambda>i. Inr (JInt i)) (Point_Int64Value point) = Inr i \<and>
     Marshal_nilable Marshal_float64 (Point_DoubleValue point) = Inr d \<and>
     Marshal_nilable (\<lambda>s. Inr (JString s)) (Point_StringValue point) = Inr s \<and>
     Marshal_nilable Marshal_DistributionValue (Point_DistributionValue point) = Inr dv"
  using assms unfolding Marshal_Point_def Marshal_struct_def
  by (auto split: sum.splits)

lemma nilable_null_iff:
  assumes "Marshal_nilable f x = Inr j" and "\<And>v j. f v = Inr j \<Longrightarrow> j \<noteq> JNull"
  shows "j = JNull \<longleftrightarrow> x = None"
  using assms by (cases x) (auto simp: Marshal_nilable_def)

text \<open>
  Claim C6, as stated, fails: the point with the integer 42 is serialized with all five
  value fields present, the four unpopulated ones with the value \<^verbatim>\<open>null\<close>
  (\<open>Some JNull\<close> is a field that is present and null; \<open>None\<close> would be a field that is absent).
\<close>

theorem unpopulated_value_fields_are_serialized_as_null:
  "map_sum id (\<lambda>doc. map (field doc) value_field_names) (Marshal_Point example_int64_output) =
     Inr [Some JNull, Some (JInt 42), Some JNull, Some JNull, Some JNull]"
  by (simp add: Marshal_example_int64_output example_int64_json_def field_def value_field_names_def)

text \<open>
  Claim C6, amended. For every emitted line and every point of it, the serialized point is
  an object with the seven fields \<^verbatim>\<open>timestamp\<close>, \<^verbatim>\<open>labels\<close>, \<^verbatim>\<open>bool_value\<close>,
  \<^verbatim>\<open>int64_value\<close>, \<^verbatim>\<open>double_value\<close>, \<^verbatim>\<open>string_value\<close> and \<^verbatim>\<open>distribution_value\<close>, in this
  order; each of the five value fields is present, and its value is \<^verbatim>\<open>null\<close> exactly when the
  alternative is unpopulated: the encoding is a tagged union by non-null value, not by
  presence.
\<close>

theorem value_fields_present_and_null_iff_unpopulated:
  assumes "json_Marshal points = Inr line"
  shows "\<exists>docs. line = JArray docs \<and> length docs = length points \<and>
     (\<forall>n < length points.
        (\<exists>fs. docs ! n = JObject fs \<and>
           map fst fs = [''timestamp'', ''labels'', ''bool_value'', ''int64_value'',
                         ''double_value'', ''string_value'', ''distribution_value'']) \<and>
        (field (docs ! n) ''bool_value'' = Some JNull \<longleftrightarrow> Point_BoolValue (points ! n) = None) \<and>
        (field (docs ! n) ''int64_value'' = Some JNull \<longleftrightarrow> Point_Int64Value (points ! n) = None) \<and>
        (field (docs ! n) ''double_value'' = Some JNull \<longleftrightarrow> Point_DoubleValue (points ! n) = None) \<and>
        (field (docs ! n) ''string_value'' = Some JNull \<longleftrightarrow> Point_StringValue (points ! n) = None) \<and>
        (field (docs ! n) ''distribution_value'' = Some JNull \<longleftrightarrow>
           Point_DistributionValue (points ! n) = None) \<and>
        (\<forall>name \<in> set value_field_names. field (docs ! n) name \<noteq> None))"
proof -
  from Marshal_slice_Inr [OF assms [unfolded json_Marshal_def]] obtain docs where
    line: "line = JArray docs" and len: "length docs = length points"
    and each: "\<And>n. n < length points \<Longrightarrow> Marshal_Point (points ! n) = Inr (docs ! n)"
    by blast
  have "(\<exists>fs. docs ! n = JObject fs \<and>
           map fst fs = [''timestamp'', ''labels'', ''bool_value'', ''int64_value'',
                         ''double_value'', ''string_value'', ''distribution_value'']) \<and>
        (field (docs ! n) ''bool_value'' = Some JNull \<longleftrightarrow> Point_BoolValue (points ! n) = None) \<and>
        (field (docs ! n) ''int64_value'' = Some JNull \<longleftrightarrow> Point_Int64Value (points ! n) = None) \<and>
        (field (docs ! n) ''double_value'' = Some JNull \<longleftrightarrow> Point_DoubleValue (points ! n) = None) \<and>
        (field (docs ! n) ''string_value'' = Some JNull \<longleftrightarrow> Point_StringValue (points ! n) = None) \<and>
        (field (docs ! n) ''distribution_value'' = Some JNull \<longleftrightarrow>
           Point_DistributionValue (points ! n) = None) \<and>
        (\<forall>name \<in> set value_field_names. field (docs ! n) name \<noteq> None)"
    if n: "n < length points" for n
  proof -
    from Marshal_Point_fields [OF each [OF n]] obtain t l b i d s dv where
      doc: "docs ! n = JObject [(''timestamp'', t), (''labels'', l), (''bool_value'', b),
          (''int64_value'', i), (''double_value'', d), (''string_value'', s),
          (''distribution_value'', dv)]"
      and b: "Marshal_nilable (\<lambda>b. Inr (JBool b)) (Point_BoolValue (points ! n)) = Inr b"
      and i: "Marshal_nilable (\<lambda>i. Inr (JInt i)) (Point_Int64Value (points ! n)) = Inr i"
      and d: "Marshal_nilable Marshal_float64 (Point_DoubleValue (points ! n)) = Inr d"
      and s: "Marshal_nilable (\<lambda>s. Inr (JString s)) (Point_StringValue (points ! n)) = Inr s"
      and dv: "Marshal_nilable Marshal_DistributionValue (Point_DistributionValue (points ! n)) = Inr dv"
      by blast
    have "b = JNull \<longleftrightarrow> Point_BoolValue (points ! n) = None"
      by (rule nilable_null_iff [OF b]) auto
    moreover have "i = JNull \<longleftrightarrow> Point_Int64Value (points ! n) = None"
      by (rule nilable_null_iff [OF i]) auto
    moreover have "d = JNull \<longleftrightarrow> Point_DoubleValue (points ! n) = None"
      by (rule nilable_null_iff [OF d]) (rule Marshal_float64_not_null)
    moreover have "s = JNull \<longleftrightarrow> Point_StringValue (points ! n) = None"
      by (rule nilable_null_iff [OF s]) auto
    moreover have "dv = JNull \<longleftrightarrow> Point_DistributionValue (points ! n) = None"
      by (rule nilable_null_iff [OF dv]) (rule Marshal_DistributionValue_not_null)
    ultimately show ?thesis
      unfolding doc by (simp add: field_def value_field_names_def)
  qed
  with line len show ?thesis by blast
qed

theorem value_fields_present_and_null_iff_unpopulated_witness:
  "json_Marshal [example_int64_output, example_distribution_output] =
     Inr (JArray [example_int64_json, example_distribution_json]) \<and>
   Point_BoolValue example_int64_output = None \<and>
   Point_Int64Value example_int64_output \<noteq> None \<and>
   Point_Int64Value example_distribution_output = None \<and>
   Point_DistributionValue example_distribution_output \<noteq> None"
proof -
  let ?points = "[example_int64_output, example_distribution_output]"
  let ?docs = "[example_int64_json, example_distribution_json]"
  have run: "json_Marshal ?points = Inr (JArray ?docs)"
    by (simp add: json_Marshal_def Marshal_slice_def Marshal_example_int64_output
        Marshal_example_distribution_output)
  from value_fields_present_and_null_iff_unpopulated [OF run]
  have at: "\<And>n. n < length ?points \<Longrightarrow>
      (field (?docs ! n) ''bool_value'' = Some JNull \<longleftrightarrow> Point_BoolValue (?points ! n) = None) \<and>
      (field (?docs ! n) ''int64_value'' = Some JNull \<longleftrightarrow> Point_Int64Value (?points ! n) = None) \<and>
      (field (?docs ! n) ''distribution_value'' = Some JNull \<longleftrightarrow>
         Point_DistributionValue (?points ! n) = None)"
    by auto
  from at [of 0] have "Point_BoolValue example_int64_output = None \<and>
      Point_Int64Value example_int64_output \<noteq> None"
    by (simp add: field_def example_int64_json_def)
  moreover from at [of 1] have "Point_Int64Value example_distribution_output = None \<and>
      Point_DistributionValue example_distribution_output \<noteq> None"
    by (simp add: field_def example_distribution_json_def)
  ultimately show ?thesis
    using run by blast
qed

section \<open>The request\<close>

lemma time_Unix_in_range:
  assumes "0 \<le>s nsec" and "nsec <s 1000000000"
  shows "time_Unix sec nsec = \<lparr>Time_sec = sec, Time_nsec = nsec\<rparr>"
proof -
  have "\<not> nsec <s 0" and "\<not> 1000000000 \<le>s nsec"
    using assms by (simp_all add: word_sless_alt word_sle_eq)
  then show ?thesis by (simp add: time_Unix_def)
qed

lemma time_Unix_zero: "time_Unix sec 0 = \<lparr>Time_sec = sec, Time_nsec = 0\<rparr>"
  by (rule time_Unix_in_range) (simp_all add: word_sless_alt word_sle_eq)

text \<open>
  Claim C7. For every project identifier, metric type, resource type and pair of instants,
  the request has the filter \<^verbatim>\<open>metric.type="<metricType>" resource.type="<resourceType>"\<close>
  with the two strings inserted as they are, whatever they contain, and an interval whose
  start and end hold the Unix seconds of the two instants and no nanoseconds: instants that
  differ only below the second give the same request, and an instant made by
  \<^verbatim>\<open>time.Unix(sec, nsec)\<close> with \<open>nsec\<close> within one second contributes \<open>sec\<close>.
  The builder is a total function: it always returns a request.
\<close>

theorem request_filter_and_whole_second_interval:
  "Request_Filter (req projectID metricType resourceType startTime endTime) =
     ''metric.type='' @ [CHR 0x22] @ metricType @ [CHR 0x22] @
     '' resource.type='' @ [CHR 0x22] @ resourceType @ [CHR 0x22] \<and>
   Request_Name (req projectID metricType resourceType startTime endTime) = ''projects/'' @ projectID \<and>
   Request_Interval (req projectID metricType resourceType startTime endTime) = Some
     \<lparr>TimeInterval_EndTime = Some \<lparr>Timestamp_Seconds = Unix endTime, Timestamp_Nanos = 0\<rparr>,
      TimeInterval_StartTime = Some \<lparr>Timestamp_Seconds = Unix startTime, Timestamp_Nanos = 0\<rparr>\<rparr> \<and>
   req projectID metricType resourceType
       (startTime\<lparr>Time_nsec := n1\<rparr>) (endTime\<lparr>Time_nsec := n2\<rparr>) =
     req projectID metricType resourceType startTime endTime \<and>
   (0 \<le>s nsec \<and> nsec <s 1000000000 \<longrightarrow> Unix (time_Unix sec nsec) = sec)"
  by (simp add: req_def Unix_def time_Unix_in_range)

theorem request_filter_and_whole_second_interval_witness:
  "Request_Filter (req ''demo'' ''a.b/c'' ''gce_instance''
       (time_Unix 1700000000 999999999) (time_Unix 1700000600 1)) =
     ''metric.type='' @ [CHR 0x22] @ ''a.b/c'' @ [CHR 0x22] @
     '' resource.type='' @ [CHR 0x22] @ ''gce_instance'' @ [CHR 0x22] \<and>
   Request_Interval (req ''demo'' ''a.b/c'' ''gce_instance''
       (time_Unix 1700000000 999999999) (time_Unix 1700000600 1)) = Some
     \<lparr>TimeInterval_EndTime = Some \<lparr>Timestamp_Seconds = 1700000600, Timestamp_Nanos = 0\<rparr>,
      TimeInterval_StartTime = Some \<lparr>Timestamp_Seconds = 1700000000, Timestamp_Nanos = 0\<rparr>\<rparr>"
proof -
  have in_range: "(0 :: int64) \<le>s 999999999 \<and> (999999999 :: int64) <s 1000000000"
    "(0 :: int64) \<le>s 1 \<and> (1 :: int64) <s 1000000000"
    by (simp_all add: word_sless_alt word_sle_eq)
  note inst = request_filter_and_whole_second_interval
    [of "''demo''" "''a.b/c''" "''gce_instance''" "time_Unix 1700000000 999999999"
      "time_Unix 1700000600 1"]
  have "Unix (time_Unix 1700000000 999999999) = 1700000000"
    using request_filter_and_whole_second_interval
      [of "''demo''" "''a.b/c''" "''gce_instance''" "time_Unix 1700000000 999999999"
        "time_Unix 1700000600 1" 0 0 999999999 1700000000] in_range(1)
    by blast
  moreover have "Unix (time_Unix 1700000600 1) = 1700000600"
    using request_filter_and_whole_second_interval
      [of "''demo''" "''a.b/c''" "''gce_instance''" "time_Unix 1700000000 999999999"
        "time_Unix 1700000600 1" 0 0 1 1700000600] in_range(2)
    by blast
  ultimately show ?thesis
    using inst by simp
qed

section \<open>The default window\<close>

lemma minus_ten_minutes: "(- 10) * Minute = (- 600000000000 :: int64)"
  by (simp add: Minute_def)

lemma sint_add_in_range:
  fixes x :: int64
  assumes "- 9223372036854775808 \<le> sint x + c" and "sint x + c < 9223372036854775808"
  shows "sint (x + word_of_int c) = sint x + c"
proof -
  have self: "signed_take_bit 63 (sint x) = sint x"
    using sint_ge [of x] sint_lt [of x] by (simp add: signed_take_bit_int_eq_self)
  have "sint (x + word_of_int c) = signed_take_bit 63 (sint x + signed_take_bit 63 c)"
    by (simp add: sint_word_ariths sint_sbintrunc')
  also have "\<dots> = signed_take_bit 63 (signed_take_bit 63 (sint x) + signed_take_bit 63 c)"
    by (simp only: self)
  also have "\<dots> = signed_take_bit 63 (sint x + c)"
    by (rule signed_take_bit_add)
  also have "\<dots> = sint x + c"
    using assms by (simp add: signed_take_bit_int_eq_self)
  finally show ?thesis .
qed

lemma addSec_minus_600:
  assumes "- 62135596800 \<le>s sec" and "sec <s 253402300800"
  shows "addSec (sec + unixToInternal) (- 600) - unixToInternal = sec - 600"
proof -
  have lo: "- 62135596800 \<le> sint sec" and hi: "sint sec < 253402300800"
    using assms by (simp_all add: word_sless_alt word_sle_eq)
  have ext: "sint (sec + word_of_int 62135596800) = sint sec + 62135596800"
    using lo hi by (intro sint_add_in_range) simp_all
  have sum: "sint (sec + word_of_int 62135596200) = sint sec + 62135596200"
    using lo hi by (intro sint_add_in_range) simp_all
  have w1: "sec + 62135596800 + (- 600) = sec + word_of_int 62135596200"
    and w2: "sec + 62135596800 = sec + word_of_int 62135596800"
    by simp_all
  have s1: "sint (sec + 62135596800 + (- 600)) = sint sec + 62135596200"
    by (simp only: w1 sum)
  have s2: "sint (sec + 62135596800) = sint sec + 62135596800"
    by (simp only: w2 ext)
  have "\<not> (sec + 62135596800 <s sec + 62135596800 + (- 600))"
    by (simp only: word_sless_alt s1 s2)
  moreover have "\<not> (0 :: int64) <s - 600"
    by (simp add: word_sless_alt)
  ultimately have cond: "(sec + 62135596800 <s sec + 62135596800 + (- 600)) = ((0 :: int64) <s - 600)"
    by blast
  show ?thesis
    unfolding addSec_def unixToInternal_def Let_def
    by (simp only: cond if_True) simp
qed

lemma Add_minus_ten_minutes:
  assumes "0 \<le>s Time_nsec now" and "Time_nsec now <s 1000000000"
    and "- 62135596800 \<le>s Time_sec now" and "Time_sec now <s 253402300800"
  shows "Add now ((- 10) * Minute) = \<lparr>Time_sec = Time_sec now - 600, Time_nsec = Time_nsec now\<rparr>"
proof -
  have "sint (- 600000000000 :: int64) sdiv 1000000000 = - 600"
    and "sint (- 600000000000 :: int64) smod 1000000000 = 0"
    by (simp_all add: signed_divide_int_def signed_modulo_int_def)
  moreover have "\<not> 1000000000 \<le>s Time_nsec now" and "\<not> Time_nsec now <s 0"
    using assms(1,2) by (simp_all add: word_sless_alt word_sle_eq)
  ultimately show ?thesis
    unfolding minus_ten_minutes Add_def
    by (simp add: Let_def addSec_minus_600 [OF assms(3,4)])
qed

lemma Add_saturates:
  "Add \<lparr>Time_sec = 9223371974719179108, Time_nsec = 0\<rparr> ((- 10) * Minute) =
     \<lparr>Time_sec = 9223371974719179009, Time_nsec = 0\<rparr>"
proof -
  have "sint (- 600000000000 :: int64) sdiv 1000000000 = - 600"
    and "sint (- 600000000000 :: int64) smod 1000000000 = 0"
    by (simp_all add: signed_divide_int_def signed_modulo_int_def)
  then show ?thesis
    unfolding minus_ten_minutes Add_def
    by (simp add: Let_def addSec_def unixToInternal_def word_sless_alt word_sle_eq)
qed

lemma flag_defaults_no_flags:
  assumes "0 \<le>s Time_nsec now1" and "Time_nsec now1 <s 1000000000"
    and "- 62135596800 \<le>s Time_sec now1" and "Time_sec now1 <s 253402300800"
  shows "flag_Parse no_flags (flag_defaults now1 now2) =
           \<lparr>flag_project = [], flag_metricType = [], flag_resourceType = [],
            flag_start = Unix now1 - 600, flag_end = Unix now2\<rparr>"
  unfolding flag_defaults_def Add_minus_ten_minutes [OF assms]
  by (simp add: flag_Parse_def no_flags_def Unix_def)

lemma example_readings_in_range:
  "0 \<le>s Time_nsec example_now1" "Time_nsec example_now1 <s 1000000000"
  "- 62135596800 \<le>s Time_sec example_now1" "Time_sec example_now1 <s 253402300800"
  "0 \<le>s Time_nsec example_before_tick" "Time_nsec example_before_tick <s 1000000000"
  "- 62135596800 \<le>s Time_sec example_before_tick" "Time_sec example_before_tick <s 253402300800"
  by (simp_all add: example_now1_def example_before_tick_def word_sless_alt word_sle_eq)

text \<open>
  Claim C9, as stated, fails in one clause: the default window is not always ten minutes.
  The two defaults read the clock separately; for two readings one nanosecond apart, on
  the two sides of a second boundary, the window is 601 seconds.
\<close>

theorem default_window_of_601_seconds:
  "flag_end (flag_Parse no_flags (flag_defaults example_before_tick example_after_tick)) -
   flag_start (flag_Parse no_flags (flag_defaults example_before_tick example_after_tick)) = 601"
  unfolding flag_defaults_no_flags [OF example_readings_in_range(5-8)]
  by (simp add: Unix_def example_before_tick_def example_after_tick_def)

text \<open>
  Claim C9, amended. With no flag on the command line, for every two clock readings
  \<open>now1\<close> and \<open>now2\<close> (the two calls of \<^verbatim>\<open>time.Now()\<close> in the flag defaults, \<open>now1\<close> an
  instant of the years 1 to 9999), the flags take their defaults without error: the three
  strings are empty, \<^verbatim>\<open>start\<close> is the Unix second of \<open>now1\<close> less 600 and \<^verbatim>\<open>end\<close> is
  the Unix second of \<open>now2\<close>. The request is built for exactly these two seconds. The
  window is 600 seconds and the whole seconds from the first reading to the second: ten
  minutes when both readings fall in the same second, longer by the seconds between them
  otherwise. The run then fails only if the backend fails: with a backend that creates the
  client and lists no series, the process ends with status 0.
\<close>

theorem no_flags_default_window:
  assumes "0 \<le>s Time_nsec now1" and "Time_nsec now1 <s 1000000000"
      and "- 62135596800 \<le>s Time_sec now1" and "Time_sec now1 <s 253402300800"
  shows "flag_Parse no_flags (flag_defaults now1 now2) =
           \<lparr>flag_project = [], flag_metricType = [], flag_resourceType = [],
            flag_start = Unix now1 - 600, flag_end = Unix now2\<rparr> \<and>
         Process_failure (main no_flags now1 now2 backend) =
           fst (readAndPrintTimeSeriesFields backend [] [] []
                  \<lparr>Time_sec = Unix now1 - 600, Time_nsec = 0\<rparr>
                  \<lparr>Time_sec = Unix now2, Time_nsec = 0\<rparr> []) \<and>
         Request_Interval (req [] [] []
             \<lparr>Time_sec = Unix now1 - 600, Time_nsec = 0\<rparr> \<lparr>Time_sec = Unix now2, Time_nsec = 0\<rparr>) =
           Some \<lparr>TimeInterval_EndTime = Some \<lparr>Timestamp_Seconds = Unix now2, Timestamp_Nanos = 0\<rparr>,
                 TimeInterval_StartTime =
                   Some \<lparr>Timestamp_Seconds = Unix now1 - 600, Timestamp_Nanos = 0\<rparr>\<rparr> \<and>
         flag_end (flag_Parse no_flags (flag_defaults now1 now2)) -
           flag_start (flag_Parse no_flags (flag_defaults now1 now2)) =
           600 + (Unix now2 - Unix now1) \<and>
         (Unix now1 = Unix now2 \<longrightarrow>
            flag_end (flag_Parse no_flags (flag_defaults now1 now2)) -
            flag_start (flag_Parse no_flags (flag_defaults now1 now2)) = 600) \<and>
         (NewMetricClient backend = None \<and>
          ListTimeSeries backend (req [] [] []
             \<lparr>Time_sec = Unix now1 - 600, Time_nsec = 0\<rparr> \<lparr>Time_sec = Unix now2, Time_nsec = 0\<rparr>) = [] \<longrightarrow>
            main no_flags now1 now2 backend =
              \<lparr>Process_status = 0, Process_stdout = [], Process_failure = None\<rparr>)"
proof -
  note flags = flag_defaults_no_flags [OF assms, of now2]
  have main: "main no_flags now1 now2 backend =
      (let (err, out) = readAndPrintTimeSeriesFields backend [] [] []
                  \<lparr>Time_sec = Unix now1 - 600, Time_nsec = 0\<rparr>
                  \<lparr>Time_sec = Unix now2, Time_nsec = 0\<rparr> []
       in \<lparr>Process_status =
            (case err of None \<Rightarrow> 0 | Some nil_pointer_dereference \<Rightarrow> 2 | Some _ \<Rightarrow> 1),
          Process_stdout = out,
          Process_failure = err\<rparr>)"
    unfolding main_def flags by (simp add: time_Unix_zero)
  have "Process_failure (main no_flags now1 now2 backend) =
           fst (readAndPrintTimeSeriesFields backend [] [] []
                  \<lparr>Time_sec = Unix now1 - 600, Time_nsec = 0\<rparr>
                  \<lparr>Time_sec = Unix now2, Time_nsec = 0\<rparr> [])"
    unfolding main by (simp add: split_beta)
  moreover have "main no_flags now1 now2 backend =
              \<lparr>Process_status = 0, Process_stdout = [], Process_failure = None\<rparr>"
    if "NewMetricClient backend = None"
      and "ListTimeSeries backend (req [] [] []
             \<lparr>Time_sec = Unix now1 - 600, Time_nsec = 0\<rparr> \<lparr>Time_sec = Unix now2, Time_nsec = 0\<rparr>) = []"
    unfolding main using that by (simp add: readAndPrintTimeSeriesFields_def)
  ultimately show ?thesis
    unfolding flags by (simp add: req_def Unix_def)
qed

theorem no_flags_default_window_witness:
  "main no_flags example_now1 example_now2 (example_backend []) =
     \<lparr>Process_status = 0, Process_stdout = [], Process_failure = None\<rparr> \<and>
   flag_start (flag_Parse no_flags (flag_defaults example_now1 example_now2)) = 1699999400 \<and>
   flag_end (flag_Parse no_flags (flag_defaults example_now1 example_now2)) = 1700000000 \<and>
   flag_start (flag_Parse no_flags (flag_defaults example_before_tick example_after_tick))
     = 1699999400 \<and>
   flag_end (flag_Parse no_flags (flag_defaults example_before_tick example_after_tick))
     = 1700000001"
proof -
  from no_flags_default_window [OF example_readings_in_range(1-4), of example_now2
      "example_backend []"]
  have "main no_flags example_now1 example_now2 (example_backend []) =
     \<lparr>Process_status = 0, Process_stdout = [], Process_failure = None\<rparr> \<and>
   flag_start (flag_Parse no_flags (flag_defaults example_now1 example_now2)) = 1699999400 \<and>
   flag_end (flag_Parse no_flags (flag_defaults example_now1 example_now2)) = 1700000000"
    by (simp add: Unix_def example_backend_def example_now1_def example_now2_def)
  moreover from no_flags_default_window [OF example_readings_in_range(5-8), of example_after_tick
      "example_backend []"]
  have "flag_start (flag_Parse no_flags (flag_defaults example_before_tick example_after_tick))
     = 1699999400 \<and>
   flag_end (flag_Parse no_flags (flag_defaults example_before_tick example_after_tick))
     = 1700000001"
    by (simp add: Unix_def example_before_tick_def example_after_tick_def)
  ultimately show ?thesis by simp
qed

end
